theory Spec2Isabelle
  imports Main "HOL-Library.Word"
begin

section \<open>POSIX synchronization layer of nng: \<^verbatim>\<open>platform/posix/posix_synch.c\<close>\<close>

text \<open>
  The file wraps pthread mutexes and condition variables. Its functions are modelled
  as functions on an explicit world: the allocator's live blocks, the native objects
  that have been initialised, the three statics of \<open>nni_cond_attr\<close> and a log of
  every call made to the platform (allocator, clock, pthreads). What the platform
  answers to a call is not decided by this file, so it is an input: the record
  \<open>platform\<close> holds the return code of each native call. \<open>nni_panic\<close> does not
  return, so a call ends either by returning or by a panic. A function takes one call
  from entry to exit; \<open>nni_cond_attr\<close>, which guards its statics with a lock of its
  own, is modelled a second time statement by statement, for threads that run it at
  once.
\<close>

subsection \<open>Data\<close>

type_synonym addr = nat
type_synonym tid = nat
type_synonym clockid = int

text \<open>
  The result codes of the public header: \<open>OK\<close> is the literal \<open>0\<close>, the others are
  its non-zero enumerators.
\<close>

datatype nng_rv = OK | NNG_ENOMEM | NNG_EBUSY | NNG_ETIMEDOUT

text \<open>
  Native return codes are C ints. The file compares them with \<open>0\<close> and, once, with
  \<open>ETIMEDOUT\<close>; the numeric values are those of Linux, and only their being non-zero
  is used.
\<close>

definition ETIMEDOUT :: int where "ETIMEDOUT = 110"
definition EBUSY :: int where "EBUSY = 16"
definition EINVAL :: int where "EINVAL = 22"

definition CLOCK_REALTIME :: clockid where "CLOCK_REALTIME = 0"
definition CLOCK_MONOTONIC :: clockid where "CLOCK_MONOTONIC = 1"

datatype mutex_type = PTHREAD_MUTEX_DEFAULT | PTHREAD_MUTEX_ERRORCHECK

record pthread_mutexattr =
  attr_type :: mutex_type

record pthread_mutex =
  mtype :: mutex_type
  owner :: "tid option"

record pthread_condattr =
  attr_clock :: clockid

record pthread_cond =
  cv_clock :: clockid

record timespec =
  tv_sec :: int
  tv_nsec :: int

text \<open>
  A \<open>pthread_condattr_t *\<close> in this file is either \<open>NULL\<close> or the address of the
  static \<open>attr\<close> of \<open>nni_cond_attr\<close>.
\<close>

datatype attr_ref = Null | Static_attr

text \<open>
  A block handed out by \<open>nni_alloc\<close>: its size and, when it is used as a
  \<open>struct nni_cond\<close>, the field \<open>mx\<close> (\<open>None\<close> while unwritten). A
  \<open>struct nni_mutex\<close> holds only its native lock, so the address of a mutex handle also
  stands for the address of that lock (\<open>&m->mx\<close>).
\<close>

record block =
  blk_size :: nat
  blk_mx :: "addr option"

text \<open>Compile-time configuration: the two macros tested by \<open>nni_cond_attr\<close> and the two struct sizes.\<close>

record build =
  NNG_USE_GETTIMEOFDAY :: bool
  NNG_USE_CLOCKID :: clockid
  sizeof_nni_mutex :: nat
  sizeof_nni_cond :: nat

text \<open>What the platform answers during one call of a function of this file.\<close>

record platform =
  alloc_result :: "addr option"
  nni_clock :: "64 word"
  rv_mutexattr_init :: int
  rv_mutexattr_settype :: int
  rv_mutexattr_destroy :: int
  rv_mutex_init :: int
  rv_mutex_destroy :: int
  rv_mutex_lock :: int
  rv_mutex_unlock :: int
  rv_condattr_init :: int
  rv_condattr_setclock :: int
  rv_cond_init :: int
  rv_cond_destroy :: int
  rv_cond_signal :: int
  rv_cond_broadcast :: int
  rv_cond_wait :: int
  rv_cond_timedwait :: int

text \<open>One entry of the log per call to the platform, with its arguments and its answer.\<close>

datatype event =
    Ev_alloc nat "addr option"
  | Ev_free addr nat
  | Ev_clock "64 word"
  | Ev_mutexattr_init int
  | Ev_mutexattr_settype mutex_type int
  | Ev_mutexattr_destroy int
  | Ev_mutex_init addr mutex_type int
  | Ev_mutex_destroy addr int
  | Ev_mutex_lock addr int
  | Ev_mutex_unlock addr int
  | Ev_mutex_trylock addr int
  | Ev_static_lock
  | Ev_static_unlock
  | Ev_condattr_init int
  | Ev_condattr_setclock clockid int
  | Ev_cond_init addr "attr_ref option" int
  | Ev_cond_destroy addr int
  | Ev_cond_signal addr int
  | Ev_cond_broadcast addr int
  | Ev_cond_wait addr "addr option" int
  | Ev_cond_timedwait addr "addr option" timespec int

record world =
  heap :: "addr \<rightharpoonup> block"
  mutexes :: "addr \<rightharpoonup> pthread_mutex"
  conds :: "addr \<rightharpoonup> pthread_cond"
  attr_static :: "pthread_condattr option"
  mx_static :: bool
  init_static :: int
  trace :: "event list"

datatype 'a outcome = is_Return: Return (ret_val: 'a) (ret_world: world) | is_Panic: Panic string

definition world0 :: world where
  "world0 = \<lparr>heap = Map.empty, mutexes = Map.empty, conds = Map.empty,
     attr_static = None, mx_static = False, init_static = 0, trace = []\<rparr>"

definition logev :: "event \<Rightarrow> world \<Rightarrow> world" where
  "logev e w = w\<lparr>trace := trace w @ [e]\<rparr>"

text \<open>The field \<open>c->mx\<close> of the condition variable at \<open>c\<close>.\<close>

definition cond_mx :: "world \<Rightarrow> addr \<Rightarrow> addr option" where
  "cond_mx w c = (case heap w c of None \<Rightarrow> None | Some b \<Rightarrow> blk_mx b)"

subsection \<open>The platform's calls\<close>

text \<open>
  Each native call logs itself and gives back the platform's return code; it has its
  effect on the world only when that code is \<open>0\<close>.
\<close>

definition nni_alloc :: "platform \<Rightarrow> nat \<Rightarrow> world \<Rightarrow> addr option \<times> world" where
  "nni_alloc p sz w =
     (case alloc_result p of
        None \<Rightarrow> (None, logev (Ev_alloc sz None) w)
      | Some a \<Rightarrow>
          (Some a, logev (Ev_alloc sz (Some a))
                     (w\<lparr>heap := (heap w)(a \<mapsto> \<lparr>blk_size = sz, blk_mx = None\<rparr>)\<rparr>)))"

definition nni_free :: "addr \<Rightarrow> nat \<Rightarrow> world \<Rightarrow> world" where
  "nni_free a sz w = logev (Ev_free a sz) (w\<lparr>heap := (heap w)(a := None)\<rparr>)"

definition pthread_mutexattr_init :: "platform \<Rightarrow> world \<Rightarrow> int \<times> pthread_mutexattr \<times> world" where
  "pthread_mutexattr_init p w =
     (rv_mutexattr_init p, \<lparr>attr_type = PTHREAD_MUTEX_DEFAULT\<rparr>,
      logev (Ev_mutexattr_init (rv_mutexattr_init p)) w)"

definition pthread_mutexattr_settype ::
  "platform \<Rightarrow> pthread_mutexattr \<Rightarrow> mutex_type \<Rightarrow> world \<Rightarrow> int \<times> pthread_mutexattr \<times> world" where
  "pthread_mutexattr_settype p attr ty w =
     (rv_mutexattr_settype p,
      (if rv_mutexattr_settype p = 0 then attr\<lparr>attr_type := ty\<rparr> else attr),
      logev (Ev_mutexattr_settype ty (rv_mutexattr_settype p)) w)"

definition pthread_mutexattr_destroy :: "platform \<Rightarrow> world \<Rightarrow> int \<times> world" where
  "pthread_mutexattr_destroy p w =
     (rv_mutexattr_destroy p, logev (Ev_mutexattr_destroy (rv_mutexattr_destroy p)) w)"

definition pthread_mutex_init ::
  "platform \<Rightarrow> addr \<Rightarrow> pthread_mutexattr \<Rightarrow> world \<Rightarrow> int \<times> world" where
  "pthread_mutex_init p a attr w =
     (rv_mutex_init p,
      logev (Ev_mutex_init a (attr_type attr) (rv_mutex_init p))
        (if rv_mutex_init p = 0
         then w\<lparr>mutexes := (mutexes w)(a \<mapsto> \<lparr>mtype = attr_type attr, owner = None\<rparr>)\<rparr>
         else w))"

definition pthread_mutex_destroy :: "platform \<Rightarrow> addr \<Rightarrow> world \<Rightarrow> int \<times> world" where
  "pthread_mutex_destroy p a w =
     (rv_mutex_destroy p,
      logev (Ev_mutex_destroy a (rv_mutex_destroy p))
        (if rv_mutex_destroy p = 0 then w\<lparr>mutexes := (mutexes w)(a := None)\<rparr> else w))"

definition set_owner :: "addr \<Rightarrow> tid option \<Rightarrow> world \<Rightarrow> world" where
  "set_owner a ow w =
     (case mutexes w a of
        None \<Rightarrow> w
      | Some mu \<Rightarrow> w\<lparr>mutexes := (mutexes w)(a \<mapsto> mu\<lparr>owner := ow\<rparr>)\<rparr>)"

text \<open>
  Locking may suspend the caller, and when and how it comes back depends on the other
  threads: the return code is the platform's.
\<close>

definition pthread_mutex_lock :: "platform \<Rightarrow> tid \<Rightarrow> addr \<Rightarrow> world \<Rightarrow> int \<times> world" where
  "pthread_mutex_lock p t a w =
     (rv_mutex_lock p,
      logev (Ev_mutex_lock a (rv_mutex_lock p))
        (if rv_mutex_lock p = 0 then set_owner a (Some t) w else w))"

definition pthread_mutex_unlock :: "platform \<Rightarrow> addr \<Rightarrow> world \<Rightarrow> int \<times> world" where
  "pthread_mutex_unlock p a w =
     (rv_mutex_unlock p,
      logev (Ev_mutex_unlock a (rv_mutex_unlock p))
        (if rv_mutex_unlock p = 0 then set_owner a None w else w))"

text \<open>
  Trying the lock never suspends the caller, and for the non-recursive locks of this
  file its answer is fixed by the state of the lock: \<open>EBUSY\<close> when some thread holds
  it, else \<open>0\<close> and the caller holds it. An address where no lock was initialised
  gives \<open>EINVAL\<close>.
\<close>

definition mutex_trylock_rv :: "world \<Rightarrow> addr \<Rightarrow> int" where
  "mutex_trylock_rv w a =
     (case mutexes w a of
        None \<Rightarrow> EINVAL
      | Some mu \<Rightarrow> (case owner mu of None \<Rightarrow> 0 | Some holder \<Rightarrow> EBUSY))"

definition pthread_mutex_trylock :: "tid \<Rightarrow> addr \<Rightarrow> world \<Rightarrow> int \<times> world" where
  "pthread_mutex_trylock t a w =
     (mutex_trylock_rv w a,
      logev (Ev_mutex_trylock a (mutex_trylock_rv w a))
        (if mutex_trylock_rv w a = 0 then set_owner a (Some t) w else w))"

text \<open>The static lock \<open>mx\<close> of \<open>nni_cond_attr\<close>; the file ignores both return codes.\<close>

definition static_lock :: "world \<Rightarrow> world" where
  "static_lock w = logev Ev_static_lock (w\<lparr>mx_static := True\<rparr>)"

definition static_unlock :: "world \<Rightarrow> world" where
  "static_unlock w = logev Ev_static_unlock (w\<lparr>mx_static := False\<rparr>)"

text \<open>The two attribute calls act on the static \<open>attr\<close>, the only object they are given.\<close>

definition pthread_condattr_init :: "platform \<Rightarrow> world \<Rightarrow> int \<times> world" where
  "pthread_condattr_init p w =
     (rv_condattr_init p,
      logev (Ev_condattr_init (rv_condattr_init p))
        (if rv_condattr_init p = 0
         then w\<lparr>attr_static := Some \<lparr>attr_clock = CLOCK_REALTIME\<rparr>\<rparr>
         else w))"

definition pthread_condattr_setclock :: "platform \<Rightarrow> clockid \<Rightarrow> world \<Rightarrow> int \<times> world" where
  "pthread_condattr_setclock p clk w =
     (rv_condattr_setclock p,
      logev (Ev_condattr_setclock clk (rv_condattr_setclock p))
        (if rv_condattr_setclock p = 0
         then w\<lparr>attr_static := map_option (\<lambda>a. a\<lparr>attr_clock := clk\<rparr>) (attr_static w)\<rparr>
         else w))"

text \<open>
  The clock a condition variable gets from its attribute argument: the default for
  \<open>NULL\<close>, else the clock of the static attribute. An indeterminate pointer, or the
  static attribute before its initialisation, gives no clock and the call \<open>EINVAL\<close>.
\<close>

definition attr_ref_clock :: "world \<Rightarrow> attr_ref option \<Rightarrow> clockid option" where
  "attr_ref_clock w r =
     (case r of
        None \<Rightarrow> None
      | Some Null \<Rightarrow> Some CLOCK_REALTIME
      | Some Static_attr \<Rightarrow> map_option attr_clock (attr_static w))"

definition pthread_cond_init ::
  "platform \<Rightarrow> addr \<Rightarrow> attr_ref option \<Rightarrow> world \<Rightarrow> int \<times> world" where
  "pthread_cond_init p c r w =
     (case attr_ref_clock w r of
        None \<Rightarrow> (EINVAL, logev (Ev_cond_init c r EINVAL) w)
      | Some clk \<Rightarrow>
          (rv_cond_init p,
           logev (Ev_cond_init c r (rv_cond_init p))
             (if rv_cond_init p = 0
              then w\<lparr>conds := (conds w)(c \<mapsto> \<lparr>cv_clock = clk\<rparr>)\<rparr>
              else w)))"

definition pthread_cond_destroy :: "platform \<Rightarrow> addr \<Rightarrow> world \<Rightarrow> int \<times> world" where
  "pthread_cond_destroy p c w =
     (rv_cond_destroy p,
      logev (Ev_cond_destroy c (rv_cond_destroy p))
        (if rv_cond_destroy p = 0 then w\<lparr>conds := (conds w)(c := None)\<rparr> else w))"

definition pthread_cond_signal :: "platform \<Rightarrow> addr \<Rightarrow> world \<Rightarrow> int \<times> world" where
  "pthread_cond_signal p c w = (rv_cond_signal p, logev (Ev_cond_signal c (rv_cond_signal p)) w)"

definition pthread_cond_broadcast :: "platform \<Rightarrow> addr \<Rightarrow> world \<Rightarrow> int \<times> world" where
  "pthread_cond_broadcast p c w =
     (rv_cond_broadcast p, logev (Ev_cond_broadcast c (rv_cond_broadcast p)) w)"

text \<open>
  A wait gives the lock up and has it again when it returns, so between call and return
  the model changes nothing but the log.
\<close>

definition pthread_cond_wait :: "platform \<Rightarrow> addr \<Rightarrow> addr option \<Rightarrow> world \<Rightarrow> int \<times> world" where
  "pthread_cond_wait p c mx w = (rv_cond_wait p, logev (Ev_cond_wait c mx (rv_cond_wait p)) w)"

definition pthread_cond_timedwait ::
  "platform \<Rightarrow> addr \<Rightarrow> addr option \<Rightarrow> timespec \<Rightarrow> world \<Rightarrow> int \<times> world" where
  "pthread_cond_timedwait p c mx ts w =
     (rv_cond_timedwait p, logev (Ev_cond_timedwait c mx ts (rv_cond_timedwait p)) w)"

subsection \<open>Mutexes\<close>

text \<open>
  Modelled from the spec: \<open>nni_mutexattr\<close>, the attribute object that \<open>nni_mutex_init\<close>
  passes to the native initialisation, is only declared (\<open>extern\<close>) in this file; it is
  defined and configured elsewhere in the library. The specification's data model says
  that the native object of every Mutex is configured for error-checking behaviour.
\<close>

definition nni_mutexattr :: pthread_mutexattr where
  "nni_mutexattr = \<lparr>attr_type = PTHREAD_MUTEX_ERRORCHECK\<rparr>"

definition nni_mutex_init :: "platform \<Rightarrow> addr \<Rightarrow> world \<Rightarrow> nng_rv outcome" where
  "nni_mutex_init p mp w =
     (let (rv, w1) = pthread_mutex_init p mp nni_mutexattr w
      in if rv \<noteq> 0 then Return NNG_ENOMEM w1 else Return OK w1)"

definition nni_mutex_fini :: "platform \<Rightarrow> addr \<Rightarrow> world \<Rightarrow> unit outcome" where
  "nni_mutex_fini p mp w =
     (let (rv, w1) = pthread_mutex_destroy p mp w
      in if rv \<noteq> 0 then Panic ''pthread_mutex_destroy failed: %s'' else Return () w1)"

text \<open>
  \<open>nni_mutex_create\<close> and \<open>nni_cond_create\<close> return their code together with what they
  stored through the out-parameter: \<open>None\<close> when they did not write it.
\<close>

definition nni_mutex_create :: "build \<Rightarrow> platform \<Rightarrow> world \<Rightarrow> (nng_rv \<times> addr option) outcome" where
  "nni_mutex_create b p w =
     (case nni_alloc p (sizeof_nni_mutex b) w of
        (None, w1) \<Rightarrow> Return (NNG_ENOMEM, None) w1
      | (Some m, w1) \<Rightarrow>
          (let (rv0, attr0, w2) = pthread_mutexattr_init p w1
           in if rv0 \<noteq> 0
              then Return (NNG_ENOMEM, None) (nni_free m (sizeof_nni_mutex b) w2)
              else
                (let (rv1, attr1, w3) =
                       pthread_mutexattr_settype p attr0 PTHREAD_MUTEX_ERRORCHECK w2
                 in if rv1 \<noteq> 0 then Panic ''pthread_mutexattr_settype failed''
                    else
                      (let (rv, w4) = pthread_mutex_init p m attr1 w3;
                           (rv2, w5) = pthread_mutexattr_destroy p w4
                       in if rv2 \<noteq> 0 then Panic ''pthread_mutexattr_destroy failed''
                          else if rv \<noteq> 0
                          then Return (NNG_ENOMEM, None) (nni_free m (sizeof_nni_mutex b) w5)
                          else Return (OK, Some m) w5))))"

definition nni_mutex_destroy :: "build \<Rightarrow> platform \<Rightarrow> addr \<Rightarrow> world \<Rightarrow> unit outcome" where
  "nni_mutex_destroy b p m w =
     (let (rv, w1) = pthread_mutex_destroy p m w
      in if rv \<noteq> 0 then Panic ''pthread_mutex_destroy failed''
         else Return () (nni_free m (sizeof_nni_mutex b) w1))"

definition nni_mutex_enter :: "platform \<Rightarrow> tid \<Rightarrow> addr \<Rightarrow> world \<Rightarrow> unit outcome" where
  "nni_mutex_enter p t m w =
     (let (rv, w1) = pthread_mutex_lock p t m w
      in if rv \<noteq> 0 then Panic ''pthread_mutex_lock failed'' else Return () w1)"

definition nni_mutex_exit :: "platform \<Rightarrow> addr \<Rightarrow> world \<Rightarrow> unit outcome" where
  "nni_mutex_exit p m w =
     (let (rv, w1) = pthread_mutex_unlock p m w
      in if rv \<noteq> 0 then Panic ''pthread_mutex_unlock failed'' else Return () w1)"

definition nni_mutex_tryenter :: "tid \<Rightarrow> addr \<Rightarrow> world \<Rightarrow> nng_rv outcome" where
  "nni_mutex_tryenter t m w =
     (let (rv, w1) = pthread_mutex_trylock t m w
      in if rv \<noteq> 0 then Return NNG_EBUSY w1 else Return OK w1)"

subsection \<open>The clock attribute\<close>

text \<open>The condition of the \<open>#if\<close> at the head of \<open>nni_cond_attr\<close>.\<close>

definition wall_clock_build :: "build \<Rightarrow> bool" where
  "wall_clock_build b \<longleftrightarrow> NNG_USE_GETTIMEOFDAY b \<or> NNG_USE_CLOCKID b = CLOCK_REALTIME"

text \<open>
  The \<open>while (!init)\<close> loop, entered with the static lock held, and what follows it. The
  result pairs the code with what was stored through \<open>attrpp\<close>.
\<close>

function cond_attr_loop :: "build \<Rightarrow> platform \<Rightarrow> world \<Rightarrow> (nng_rv \<times> attr_ref option) outcome" where
  "cond_attr_loop b p w =
     (if init_static w = 0
      then
        (let (rv, w1) = pthread_condattr_init p w
         in if rv \<noteq> 0 then Return (NNG_ENOMEM, None) (static_unlock w1)
            else
              (let (rv', w2) = pthread_condattr_setclock p (NNG_USE_CLOCKID b) w1
               in if rv' \<noteq> 0 then Panic ''condattr_setclock: %s''
                  else cond_attr_loop b p (w2\<lparr>init_static := 1\<rparr>)))
      else Return (OK, Some Static_attr) (static_unlock w))"
  by pat_completeness auto
termination
  by (relation "measure (\<lambda>(b, p, w). if init_static w = 0 then 1 else 0)") auto

definition nni_cond_attr :: "build \<Rightarrow> platform \<Rightarrow> world \<Rightarrow> (nng_rv \<times> attr_ref option) outcome" where
  "nni_cond_attr b p w =
     (if wall_clock_build b then Return (OK, Some Null) w
      else if init_static w \<noteq> 0 then Return (OK, Some Static_attr) w
      else cond_attr_loop b p (static_lock w))"

text \<open>
  The world after the body of the loop has run through once: the attribute initialised,
  its clock set, the flag raised.
\<close>

definition attr_computed :: "build \<Rightarrow> platform \<Rightarrow> world \<Rightarrow> world" where
  "attr_computed b p w =
     (snd (pthread_condattr_setclock p (NNG_USE_CLOCKID b) (snd (pthread_condattr_init p w))))
       \<lparr>init_static := 1\<rparr>"

text \<open>
  The two ways in which a call of \<open>nni_cond_attr\<close> does not resolve an attribute: the
  initialisation of the attribute object fails (an error code), or setting its clock
  fails (a panic). Both need a build that wants another clock and a flag still unset.
\<close>

definition attr_fails :: "build \<Rightarrow> platform \<Rightarrow> world \<Rightarrow> bool" where
  "attr_fails b p w \<longleftrightarrow> \<not> wall_clock_build b \<and> init_static w = 0 \<and> rv_condattr_init p \<noteq> 0"

definition attr_panics :: "build \<Rightarrow> platform \<Rightarrow> world \<Rightarrow> bool" where
  "attr_panics b p w \<longleftrightarrow>
     \<not> wall_clock_build b \<and> init_static w = 0 \<and> rv_condattr_init p = 0
     \<and> rv_condattr_setclock p \<noteq> 0"

subsection \<open>Condition variables\<close>

definition set_cond_mx :: "addr \<Rightarrow> addr \<Rightarrow> world \<Rightarrow> world" where
  "set_cond_mx c mx w =
     (case heap w c of
        None \<Rightarrow> w
      | Some blk \<Rightarrow> w\<lparr>heap := (heap w)(c \<mapsto> blk\<lparr>blk_mx := Some mx\<rparr>)\<rparr>)"

definition nni_cond_create ::
  "build \<Rightarrow> platform \<Rightarrow> addr \<Rightarrow> world \<Rightarrow> (nng_rv \<times> addr option) outcome" where
  "nni_cond_create b p mx w =
     (case nni_cond_attr b p w of
        Panic msg \<Rightarrow> Panic msg
      | Return (rv, attrp) w1 \<Rightarrow>
          if rv \<noteq> OK then Return (rv, None) w1
          else
            (case nni_alloc p (sizeof_nni_cond b) w1 of
               (None, w2) \<Rightarrow> Return (NNG_ENOMEM, None) w2
             | (Some c, w2) \<Rightarrow>
                 (let w3 = set_cond_mx c mx w2;
                      (rv', w4) = pthread_cond_init p c attrp w3
                  in if rv' \<noteq> 0
                     then Return (NNG_ENOMEM, None) (nni_free c (sizeof_nni_cond b) w4)
                     else Return (OK, Some c) w4)))"

definition nni_cond_destroy :: "build \<Rightarrow> platform \<Rightarrow> addr \<Rightarrow> world \<Rightarrow> unit outcome" where
  "nni_cond_destroy b p c w =
     (let (rv, w1) = pthread_cond_destroy p c w
      in if rv \<noteq> 0 then Panic ''pthread_cond_destroy failed''
         else Return () (nni_free c (sizeof_nni_cond b) w1))"

definition nni_cond_signal :: "platform \<Rightarrow> addr \<Rightarrow> world \<Rightarrow> unit outcome" where
  "nni_cond_signal p c w =
     (let (rv, w1) = pthread_cond_signal p c w
      in if rv \<noteq> 0 then Panic ''pthread_cond_signal failed'' else Return () w1)"

definition nni_cond_broadcast :: "platform \<Rightarrow> addr \<Rightarrow> world \<Rightarrow> unit outcome" where
  "nni_cond_broadcast p c w =
     (let (rv, w1) = pthread_cond_broadcast p c w
      in if rv \<noteq> 0 then Panic ''pthread_cond_broadcast failed'' else Return () w1)"

definition nni_cond_wait :: "platform \<Rightarrow> addr \<Rightarrow> world \<Rightarrow> unit outcome" where
  "nni_cond_wait p c w =
     (let (rv, w1) = pthread_cond_wait p c (cond_mx w c) w
      in if rv \<noteq> 0 then Panic ''pthread_cond_wait failed'' else Return () w1)"

subsection \<open>Timed wait\<close>

text \<open>Lines 242 to 245: the deadline built from the offset and the clock, in \<open>uint64_t\<close>.\<close>

definition timedwait_deadline :: "64 word \<Rightarrow> 64 word \<Rightarrow> timespec" where
  "timedwait_deadline now usec =
     (let usec' = usec + now
      in \<lparr>tv_sec = uint (usec' div 1000000), tv_nsec = uint ((usec' mod 10000) * 1000)\<rparr>)"

definition nni_cond_timedwait :: "platform \<Rightarrow> addr \<Rightarrow> 64 word \<Rightarrow> world \<Rightarrow> nng_rv outcome" where
  "nni_cond_timedwait p c usec w =
     (let w1 = logev (Ev_clock (nni_clock p)) w;
          ts = timedwait_deadline (nni_clock p) usec;
          (rv, w2) = pthread_cond_timedwait p c (cond_mx w1 c) ts w1
      in if rv = ETIMEDOUT then Return NNG_ETIMEDOUT w2
         else if rv \<noteq> 0 then Panic ''pthread_cond_timedwait returned %d''
         else Return OK w2)"

text \<open>
  The deadline in the words of the specification: with \<open>t\<close> the clock plus the offset,
  whole seconds and the microsecond remainder in nanoseconds.
\<close>

definition spec_deadline :: "64 word \<Rightarrow> 64 word \<Rightarrow> timespec" where
  "spec_deadline now usec =
     (let t = now + usec
      in \<lparr>tv_sec = uint (t div 1000000), tv_nsec = uint (t mod 1000000) * 1000\<rparr>)"

subsection \<open>Calls in sequence\<close>

text \<open>
  A process is a sequence of calls to the functions of this file, each with the
  platform's answers for that call; it ends at the first panic.
\<close>

datatype call =
    Call_mutex_init addr
  | Call_mutex_fini addr
  | Call_mutex_create
  | Call_mutex_destroy addr
  | Call_mutex_enter tid addr
  | Call_mutex_exit addr
  | Call_mutex_tryenter tid addr
  | Call_cond_create addr
  | Call_cond_destroy addr
  | Call_cond_signal addr
  | Call_cond_broadcast addr
  | Call_cond_wait addr
  | Call_cond_timedwait addr "64 word"

definition after :: "'a outcome \<Rightarrow> world option" where
  "after r = (case r of Return v w \<Rightarrow> Some w | Panic msg \<Rightarrow> None)"

fun api :: "build \<Rightarrow> platform \<Rightarrow> call \<Rightarrow> world \<Rightarrow> world option" where
  "api b p (Call_mutex_init mp) w = after (nni_mutex_init p mp w)"
| "api b p (Call_mutex_fini mp) w = after (nni_mutex_fini p mp w)"
| "api b p Call_mutex_create w = after (nni_mutex_create b p w)"
| "api b p (Call_mutex_destroy m) w = after (nni_mutex_destroy b p m w)"
| "api b p (Call_mutex_enter t m) w = after (nni_mutex_enter p t m w)"
| "api b p (Call_mutex_exit m) w = after (nni_mutex_exit p m w)"
| "api b p (Call_mutex_tryenter t m) w = after (nni_mutex_tryenter t m w)"
| "api b p (Call_cond_create mx) w = after (nni_cond_create b p mx w)"
| "api b p (Call_cond_destroy c) w = after (nni_cond_destroy b p c w)"
| "api b p (Call_cond_signal c) w = after (nni_cond_signal p c w)"
| "api b p (Call_cond_broadcast c) w = after (nni_cond_broadcast p c w)"
| "api b p (Call_cond_wait c) w = after (nni_cond_wait p c w)"
| "api b p (Call_cond_timedwait c usec) w = after (nni_cond_timedwait p c usec w)"

fun run :: "build \<Rightarrow> (platform \<times> call) list \<Rightarrow> world \<Rightarrow> world option" where
  "run b [] w = Some w"
| "run b ((p, k) # cs) w = (case api b p k w of None \<Rightarrow> None | Some w' \<Rightarrow> run b cs w')"

text \<open>Successive calls of \<open>nni_cond_attr\<close> alone.\<close>

fun cond_attr_calls :: "build \<Rightarrow> platform list \<Rightarrow> world \<Rightarrow> world option" where
  "cond_attr_calls b [] w = Some w"
| "cond_attr_calls b (p # ps) w =
     (case after (nni_cond_attr b p w) of None \<Rightarrow> None | Some w' \<Rightarrow> cond_attr_calls b ps w')"

text \<open>How many times the log shows the attribute object being initialised with success.\<close>

definition computed :: "event \<Rightarrow> bool" where
  "computed e = (case e of Ev_condattr_init rv \<Rightarrow> rv = 0 | _ \<Rightarrow> False)"

definition computations :: "world \<Rightarrow> nat" where
  "computations w = length (filter computed (trace w))"

text \<open>
  The statics of \<open>nni_cond_attr\<close> as the function itself leaves them: once the flag is
  set, the attribute is initialised and carries the configured clock, and the log shows
  one computation; before, it shows none.
\<close>

definition statics_ok :: "build \<Rightarrow> world \<Rightarrow> bool" where
  "statics_ok b w =
     (if init_static w = 0 then computations w = 0
      else computations w = 1 \<and> attr_static w = Some \<lparr>attr_clock = NNG_USE_CLOCKID b\<rparr>)"

text \<open>The allocator never hands out a block that is still live.\<close>

definition alloc_fresh :: "platform \<Rightarrow> world \<Rightarrow> bool" where
  "alloc_fresh p w = (case alloc_result p of None \<Rightarrow> True | Some a \<Rightarrow> heap w a = None)"

text \<open>
  The blocks a stretch of the log leaves allocated: each successful allocation adds its
  block with its size, each release takes out the block of that address and that size.
\<close>

fun outstanding :: "event list \<Rightarrow> (addr \<times> nat) list \<Rightarrow> (addr \<times> nat) list" where
  "outstanding [] acc = acc"
| "outstanding (Ev_alloc sz (Some a) # es) acc = outstanding es ((a, sz) # acc)"
| "outstanding (Ev_free a sz # es) acc =
     (if (a, sz) \<in> set acc then outstanding es (remove1 (a, sz) acc)
      else outstanding es ((a, sz) # acc))"
| "outstanding (e # es) acc = outstanding es acc"

text \<open>The clock that \<open>nni_cond_attr\<close> resolves for a build, and the reference that carries it.\<close>

definition resolved_attr :: "build \<Rightarrow> attr_ref" where
  "resolved_attr b = (if wall_clock_build b then Null else Static_attr)"

definition resolved_clock :: "build \<Rightarrow> clockid" where
  "resolved_clock b = (if wall_clock_build b then CLOCK_REALTIME else NNG_USE_CLOCKID b)"

subsection \<open>Threads\<close>

text \<open>
  \<open>nni_cond_attr\<close> may be entered by any number of threads at once. Here each thread
  is at a line of the function (a wall-clock build has only the two lines of its first
  branch, taken in one step), the statics are shared, and one thread at a time executes
  the statement of its line as one step. Locking the static lock is possible only while
  it is free. A failing \<open>pthread_condattr_setclock\<close> ends the process, so that
  step has no successor. \<open>Idle\<close> is a thread outside the function, \<open>Returned\<close> one
  that has come back with its result.
\<close>

datatype pc = Idle | L146 | L151 | L152 | L153 | L154 | L157 | L161 | L163
  | Returned "nng_rv \<times> attr_ref option"

inductive step :: "build \<Rightarrow> world \<times> (tid \<Rightarrow> pc) \<Rightarrow> world \<times> (tid \<Rightarrow> pc) \<Rightarrow> bool"
  for b :: build where
  call: "pcs t = Idle \<or> pcs t = Returned r \<Longrightarrow>
     step b (w, pcs)
       (w, pcs(t := if wall_clock_build b then Returned (OK, Some Null) else L146))"
| test_fast: "pcs t = L146 \<Longrightarrow>
     step b (w, pcs)
       (w, pcs(t := if init_static w \<noteq> 0 then Returned (OK, Some Static_attr) else L151))"
| lock: "pcs t = L151 \<Longrightarrow> \<not> mx_static w \<Longrightarrow>
     step b (w, pcs) (static_lock w, pcs(t := L152))"
| test_loop: "pcs t = L152 \<Longrightarrow>
     step b (w, pcs) (w, pcs(t := if init_static w = 0 then L153 else L163))"
| attr_init: "pcs t = L153 \<Longrightarrow>
     step b (w, pcs)
       (snd (pthread_condattr_init p w), pcs(t := if rv_condattr_init p \<noteq> 0 then L154 else L157))"
| give_up: "pcs t = L154 \<Longrightarrow>
     step b (w, pcs) (static_unlock w, pcs(t := Returned (NNG_ENOMEM, None)))"
| setclock: "pcs t = L157 \<Longrightarrow> rv_condattr_setclock p = 0 \<Longrightarrow>
     step b (w, pcs) (snd (pthread_condattr_setclock p (NNG_USE_CLOCKID b) w), pcs(t := L161))"
| set_init: "pcs t = L161 \<Longrightarrow>
     step b (w, pcs) (w\<lparr>init_static := 1\<rparr>, pcs(t := L152))"
| unlock: "pcs t = L163 \<Longrightarrow>
     step b (w, pcs) (static_unlock w, pcs(t := Returned (OK, Some Static_attr)))"

text \<open>A configuration is reachable when steps lead to it from the initial world with every thread idle.\<close>

inductive reach :: "build \<Rightarrow> world \<times> (tid \<Rightarrow> pc) \<Rightarrow> bool" for b :: build where
  start: "reach b (world0, \<lambda>t. Idle)"
| move: "reach b c \<Longrightarrow> step b c c' \<Longrightarrow> reach b c'"

text \<open>
  The lines at which a thread holds the static lock, those between a successful
  initialisation of the attribute and the raising of the flag, those that are only
  reached with the flag unset, and those only reached with it set.
\<close>

definition critical :: "pc \<Rightarrow> bool" where
  "critical q \<longleftrightarrow> q = L152 \<or> q = L153 \<or> q = L154 \<or> q = L157 \<or> q = L161 \<or> q = L163"

definition computing :: "pc \<Rightarrow> bool" where
  "computing q \<longleftrightarrow> q = L157 \<or> q = L161"

definition unset_here :: "pc \<Rightarrow> bool" where
  "unset_here q \<longleftrightarrow> q = L153 \<or> q = L157 \<or> q = L161"

definition set_here :: "pc \<Rightarrow> bool" where
  "set_here q \<longleftrightarrow> q = L163 \<or> q = Returned (OK, Some Static_attr)"

text \<open>At most one thread is at a line of the locked region; no thread is at a line of a given kind.\<close>

definition sole :: "(tid \<Rightarrow> pc) \<Rightarrow> bool" where
  "sole pcs \<longleftrightarrow> (\<forall>t t'. critical (pcs t) \<and> critical (pcs t') \<longrightarrow> t = t')"

definition nobody :: "(pc \<Rightarrow> bool) \<Rightarrow> (tid \<Rightarrow> pc) \<Rightarrow> bool" where
  "nobody P pcs \<longleftrightarrow> (\<forall>t. \<not> P (pcs t))"

text \<open>
  What holds of every reachable configuration: the locked region holds one thread at
  most and only with the lock taken; the flag is unset where a thread is about to
  compute and set where one has left with the static attribute; the log shows one
  successful initialisation once a thread is past it or the flag is set, and none
  before; the attribute carries the configured clock from the raising of the flag on.
\<close>

definition threads_ok :: "build \<Rightarrow> world \<times> (tid \<Rightarrow> pc) \<Rightarrow> bool" where
  "threads_ok b c =
     (case c of (w, pcs) \<Rightarrow>
        sole pcs
      \<and> (mx_static w \<or> nobody critical pcs)
      \<and> (init_static w = 0 \<or> nobody unset_here pcs)
      \<and> (init_static w \<noteq> 0 \<or> nobody set_here pcs)
      \<and> computations w = (if init_static w = 0 \<and> nobody computing pcs then 0 else 1)
      \<and> (init_static w = 0 \<and> nobody (\<lambda>q. q = L161) pcs
            \<or> attr_static w = Some \<lparr>attr_clock = NNG_USE_CLOCKID b\<rparr>)
      \<and> (nobody (\<lambda>q. q = L157) pcs \<or> attr_static w \<noteq> None))"

abbreviation steps :: "build \<Rightarrow> world \<times> (tid \<Rightarrow> pc) \<Rightarrow> world \<times> (tid \<Rightarrow> pc) \<Rightarrow> bool" where
  "steps b \<equiv> (step b)\<^sup>*\<^sup>*"

subsection \<open>Sample inputs\<close>

definition all_succeed :: platform where
  "all_succeed = \<lparr>alloc_result = Some 1, nni_clock = 0,
     rv_mutexattr_init = 0, rv_mutexattr_settype = 0, rv_mutexattr_destroy = 0,
     rv_mutex_init = 0, rv_mutex_destroy = 0, rv_mutex_lock = 0, rv_mutex_unlock = 0,
     rv_condattr_init = 0, rv_condattr_setclock = 0, rv_cond_init = 0, rv_cond_destroy = 0,
     rv_cond_signal = 0, rv_cond_broadcast = 0, rv_cond_wait = 0, rv_cond_timedwait = 0\<rparr>"

definition monotonic_build :: build where
  "monotonic_build = \<lparr>NNG_USE_GETTIMEOFDAY = False, NNG_USE_CLOCKID = CLOCK_MONOTONIC,
     sizeof_nni_mutex = 40, sizeof_nni_cond = 56\<rparr>"

definition held_world :: world where
  "held_world = world0\<lparr>mutexes := [1 \<mapsto> \<lparr>mtype = PTHREAD_MUTEX_ERRORCHECK, owner = Some 7\<rparr>]\<rparr>"

definition free_world :: world where
  "free_world = world0\<lparr>mutexes := [1 \<mapsto> \<lparr>mtype = PTHREAD_MUTEX_ERRORCHECK, owner = None\<rparr>]\<rparr>"

definition wall_build :: build where
  "wall_build = \<lparr>NNG_USE_GETTIMEOFDAY = True, NNG_USE_CLOCKID = CLOCK_MONOTONIC,
     sizeof_nni_mutex = 40, sizeof_nni_cond = 56\<rparr>"

definition cond_world :: world where
  "cond_world = ret_world (nni_cond_create monotonic_build all_succeed 5 world0)"

definition attr_world :: world where
  "attr_world = ret_world (nni_cond_attr monotonic_build all_succeed world0)"

definition both_returned :: "tid \<Rightarrow> pc" where
  "both_returned t = (if t = 1 \<or> t = 2 then Returned (OK, Some Static_attr) else Idle)"

definition raced_world :: world where
  "raced_world = static_unlock (static_lock attr_world)"

section \<open>Properties\<close>

lemmas native_defs = nni_alloc_def nni_free_def pthread_mutexattr_init_def
  pthread_mutexattr_settype_def pthread_mutexattr_destroy_def pthread_mutex_init_def
  pthread_mutex_destroy_def pthread_mutex_lock_def pthread_mutex_unlock_def
  pthread_mutex_trylock_def static_lock_def static_unlock_def pthread_condattr_init_def
  pthread_condattr_setclock_def pthread_cond_init_def pthread_cond_destroy_def
  pthread_cond_signal_def pthread_cond_broadcast_def pthread_cond_wait_def
  pthread_cond_timedwait_def

lemma logev_simps [simp]:
  "heap (logev e w) = heap w" "mutexes (logev e w) = mutexes w" "conds (logev e w) = conds w"
  "attr_static (logev e w) = attr_static w" "mx_static (logev e w) = mx_static w"
  "init_static (logev e w) = init_static w" "trace (logev e w) = trace w @ [e]"
  by (simp_all add: logev_def)

lemma set_owner_simps [simp]:
  "heap (set_owner a ow w) = heap w" "conds (set_owner a ow w) = conds w"
  "attr_static (set_owner a ow w) = attr_static w" "mx_static (set_owner a ow w) = mx_static w"
  "init_static (set_owner a ow w) = init_static w" "trace (set_owner a ow w) = trace w"
  by (simp_all add: set_owner_def split: option.splits)

lemma set_cond_mx_simps [simp]:
  "mutexes (set_cond_mx c mx w) = mutexes w" "conds (set_cond_mx c mx w) = conds w"
  "attr_static (set_cond_mx c mx w) = attr_static w" "mx_static (set_cond_mx c mx w) = mx_static w"
  "init_static (set_cond_mx c mx w) = init_static w" "trace (set_cond_mx c mx w) = trace w"
  by (simp_all add: set_cond_mx_def split: option.splits)

lemma static_lock_simps [simp]:
  "heap (static_lock w) = heap w" "mutexes (static_lock w) = mutexes w"
  "conds (static_lock w) = conds w" "attr_static (static_lock w) = attr_static w"
  "mx_static (static_lock w) = True" "init_static (static_lock w) = init_static w"
  "trace (static_lock w) = trace w @ [Ev_static_lock]"
  by (simp_all add: static_lock_def)

lemma static_unlock_simps [simp]:
  "heap (static_unlock w) = heap w" "mutexes (static_unlock w) = mutexes w"
  "conds (static_unlock w) = conds w" "attr_static (static_unlock w) = attr_static w"
  "mx_static (static_unlock w) = False" "init_static (static_unlock w) = init_static w"
  "trace (static_unlock w) = trace w @ [Ev_static_unlock]"
  by (simp_all add: static_unlock_def)

lemma attr_computed_simps [simp]:
  "heap (attr_computed b p w) = heap w" "mutexes (attr_computed b p w) = mutexes w"
  "conds (attr_computed b p w) = conds w"
  "mx_static (attr_computed b p w) = mx_static w" "init_static (attr_computed b p w) = 1"
  "trace (attr_computed b p w) =
     trace w @ [Ev_condattr_init (rv_condattr_init p),
                Ev_condattr_setclock (NNG_USE_CLOCKID b) (rv_condattr_setclock p)]"
  by (simp_all add: attr_computed_def pthread_condattr_init_def pthread_condattr_setclock_def)

lemma attr_computed_attr [simp]:
  "rv_condattr_init p = 0 \<Longrightarrow> rv_condattr_setclock p = 0 \<Longrightarrow>
   attr_static (attr_computed b p w) = Some \<lparr>attr_clock = NNG_USE_CLOCKID b\<rparr>"
  by (simp add: attr_computed_def pthread_condattr_init_def pthread_condattr_setclock_def)

lemma cond_attr_loop_set:
  "init_static w \<noteq> 0 \<Longrightarrow> cond_attr_loop b p w = Return (OK, Some Static_attr) (static_unlock w)"
  by (subst cond_attr_loop.simps) simp

lemma cond_attr_loop_unset:
  "init_static w = 0 \<Longrightarrow>
   cond_attr_loop b p w =
     (if rv_condattr_init p \<noteq> 0
      then Return (NNG_ENOMEM, None) (static_unlock (snd (pthread_condattr_init p w)))
      else if rv_condattr_setclock p \<noteq> 0 then Panic ''condattr_setclock: %s''
      else Return (OK, Some Static_attr) (static_unlock (attr_computed b p w)))"
  apply (subst cond_attr_loop.simps)
  apply (simp add: attr_computed_def cond_attr_loop_set split: prod.splits)
  apply (simp add: pthread_condattr_init_def pthread_condattr_setclock_def)
  done

declare cond_attr_loop.simps [simp del]

lemma nni_cond_attr_eq:
  "nni_cond_attr b p w =
     (if wall_clock_build b then Return (OK, Some Null) w
      else if init_static w \<noteq> 0 then Return (OK, Some Static_attr) w
      else if rv_condattr_init p \<noteq> 0
      then Return (NNG_ENOMEM, None)
             (static_unlock (snd (pthread_condattr_init p (static_lock w))))
      else if rv_condattr_setclock p \<noteq> 0 then Panic ''condattr_setclock: %s''
      else Return (OK, Some Static_attr) (static_unlock (attr_computed b p (static_lock w))))"
  by (simp add: nni_cond_attr_def cond_attr_loop_unset)

lemma computations_logev [simp]:
  "computations (logev e w) = computations w + (if computed e then 1 else 0)"
  by (simp add: computations_def logev_def)

lemma nni_cond_attr_statics:
  assumes "statics_ok b w" and "nni_cond_attr b p w = Return v w'"
  shows "statics_ok b w'"
  using assms
  by (auto simp add: nni_cond_attr_eq statics_ok_def computations_def computed_def
        pthread_condattr_init_def split: if_splits)

lemma statics_ok_logev [simp]:
  "\<not> computed e \<Longrightarrow> statics_ok b (logev e w) = statics_ok b w"
  by (simp add: statics_ok_def)

lemma statics_ok_heap [simp]: "statics_ok b (w\<lparr>heap := h\<rparr>) = statics_ok b w"
  and statics_ok_mutexes [simp]: "statics_ok b (w\<lparr>mutexes := m\<rparr>) = statics_ok b w"
  and statics_ok_conds [simp]: "statics_ok b (w\<lparr>conds := cs\<rparr>) = statics_ok b w"
  by (simp_all add: statics_ok_def computations_def)

lemma statics_ok_set_owner [simp]: "statics_ok b (set_owner a ow w) = statics_ok b w"
  by (simp add: set_owner_def split: option.splits)

lemma statics_ok_set_cond_mx [simp]: "statics_ok b (set_cond_mx c mx w) = statics_ok b w"
  by (simp add: set_cond_mx_def split: option.splits)

lemma nni_cond_create_statics:
  assumes "statics_ok b w" and "nni_cond_create b p mx w = Return v w'"
  shows "statics_ok b w'"
proof (cases "nni_cond_attr b p w")
  case (Panic msg)
  with assms(2) show ?thesis by (simp add: nni_cond_create_def)
next
  case (Return u w1)
  with assms(1) have ok: "statics_ok b w1" by (rule nni_cond_attr_statics)
  from assms(2) Return ok show ?thesis
    by (auto simp add: nni_cond_create_def nni_alloc_def nni_free_def pthread_cond_init_def
          computed_def Let_def split: prod.splits if_splits option.splits)
qed

lemma api_statics:
  assumes "statics_ok b w" and "api b p k w = Some w'"
  shows "statics_ok b w'"
proof (cases k)
  case (Call_cond_create mx)
  with assms show ?thesis
    by (auto simp add: after_def split: outcome.splits dest: nni_cond_create_statics)
next
  case Call_mutex_create
  with assms show ?thesis
    by (auto simp add: after_def nni_mutex_create_def native_defs computed_def
          split: outcome.splits option.splits if_splits)
qed (use assms in \<open>auto simp add: after_def nni_mutex_init_def nni_mutex_fini_def
       nni_mutex_destroy_def nni_mutex_enter_def nni_mutex_exit_def nni_mutex_tryenter_def
       nni_cond_destroy_def nni_cond_signal_def nni_cond_broadcast_def nni_cond_wait_def
       nni_cond_timedwait_def native_defs computed_def Let_def
       split: outcome.splits option.splits if_splits\<close>)

lemma run_statics:
  "statics_ok b w \<Longrightarrow> run b cs w = Some w' \<Longrightarrow> statics_ok b w'"
proof (induction cs arbitrary: w)
  case Nil
  then show ?case by simp
next
  case (Cons pk cs)
  obtain p k where pk: "pk = (p, k)" by (cases pk)
  from Cons.prems(2) pk obtain w1 where step: "api b p k w = Some w1" and rest: "run b cs w1 = Some w'"
    by (auto split: option.splits)
  from Cons.prems(1) step have "statics_ok b w1" by (rule api_statics)
  then show ?case using rest by (rule Cons.IH)
qed

lemma cond_attr_calls_statics:
  "statics_ok b w \<Longrightarrow> cond_attr_calls b ps w = Some w' \<Longrightarrow> statics_ok b w'"
proof (induction ps arbitrary: w)
  case Nil
  then show ?case by simp
next
  case (Cons p ps)
  from Cons.prems(2) obtain v w1 where step: "nni_cond_attr b p w = Return v w1"
      and rest: "cond_attr_calls b ps w1 = Some w'"
    by (auto simp add: after_def split: option.splits outcome.splits)
  from Cons.prems(1) step have "statics_ok b w1" by (rule nni_cond_attr_statics)
  then show ?case using rest by (rule Cons.IH)
qed

lemma statics_ok_world0: "statics_ok b world0"
  by (simp add: statics_ok_def world0_def computations_def)

lemma statics_ok_once: "statics_ok b w \<Longrightarrow> computations w \<le> 1"
  by (simp add: statics_ok_def split: if_splits)

lemma attr_ref_clock_frame [simp]:
  "attr_ref_clock (logev e w) r = attr_ref_clock w r"
  "attr_ref_clock (w\<lparr>heap := h\<rparr>) r = attr_ref_clock w r"
  "attr_ref_clock (set_cond_mx c mx w) r = attr_ref_clock w r"
  by (simp_all add: attr_ref_clock_def split: option.splits attr_ref.splits)

lemma nni_cond_attr_resolves:
  assumes "statics_ok b w" and "nni_cond_attr b p w = Return (OK, r) w1"
  shows "r = Some (resolved_attr b) \<and> attr_ref_clock w1 r = Some (resolved_clock b)
         \<and> heap w1 = heap w \<and> mutexes w1 = mutexes w \<and> conds w1 = conds w"
  using assms
  by (auto simp add: nni_cond_attr_eq statics_ok_def resolved_attr_def resolved_clock_def
        attr_ref_clock_def pthread_condattr_init_def split: if_splits)

lemma nni_cond_attr_code:
  "nni_cond_attr b p w = Return (rv, r) w1 \<Longrightarrow> rv = OK \<or> (rv = NNG_ENOMEM \<and> r = None)"
  by (auto simp add: nni_cond_attr_eq split: if_splits)

lemma nni_cond_attr_panics: "is_Panic (nni_cond_attr b p w) = attr_panics b p w"
  by (simp add: nni_cond_attr_eq attr_panics_def)

lemma nni_cond_attr_fails:
  "(is_Return (nni_cond_attr b p w) \<and> fst (ret_val (nni_cond_attr b p w)) \<noteq> OK) = attr_fails b p w"
  by (simp add: nni_cond_attr_eq attr_fails_def)

lemma nni_cond_create_eq:
  assumes "statics_ok b w"
  shows "nni_cond_create b p mx w =
     (if attr_panics b p w then Panic ''condattr_setclock: %s''
      else if attr_fails b p w
      then Return (NNG_ENOMEM, None) (ret_world (nni_cond_attr b p w))
      else (case alloc_result p of
              None \<Rightarrow> Return (NNG_ENOMEM, None)
                        (logev (Ev_alloc (sizeof_nni_cond b) None) (ret_world (nni_cond_attr b p w)))
            | Some c \<Rightarrow>
                if rv_cond_init p \<noteq> 0
                then Return (NNG_ENOMEM, None)
                       (nni_free c (sizeof_nni_cond b)
                          (snd (pthread_cond_init p c (Some (resolved_attr b))
                             (set_cond_mx c mx (snd (nni_alloc p (sizeof_nni_cond b)
                                (ret_world (nni_cond_attr b p w))))))))
                else Return (OK, Some c)
                       (snd (pthread_cond_init p c (Some (resolved_attr b))
                          (set_cond_mx c mx (snd (nni_alloc p (sizeof_nni_cond b)
                              (ret_world (nni_cond_attr b p w)))))))))"
proof (cases "nni_cond_attr b p w")
  case (Panic msg)
  then show ?thesis
    by (auto simp add: nni_cond_create_def nni_cond_attr_eq attr_panics_def split: if_splits)
next
  case (Return u w1)
  obtain rv r where u: "u = (rv, r)" by (cases u)
  show ?thesis
  proof (cases "rv = OK")
    case False
    with Return u nni_cond_attr_code [of b p w rv r w1] have "rv = NNG_ENOMEM" "r = None" by auto
    moreover from Return u False nni_cond_attr_fails [of b p w] nni_cond_attr_panics [of b p w]
    have "attr_fails b p w" "\<not> attr_panics b p w" by auto
    ultimately show ?thesis using Return u by (simp add: nni_cond_create_def)
  next
    case True
    with Return u assms have res: "r = Some (resolved_attr b)"
        "attr_ref_clock w1 r = Some (resolved_clock b)"
      using nni_cond_attr_resolves [of b w p r w1] by auto
    from Return u True nni_cond_attr_fails [of b p w] nni_cond_attr_panics [of b p w]
    have no: "\<not> attr_fails b p w" "\<not> attr_panics b p w" by auto
    show ?thesis using Return u True res no
      by (auto simp add: nni_cond_create_def nni_alloc_def pthread_cond_init_def Let_def
            split: option.splits)
  qed
qed

lemma cond_mx_logev [simp]: "cond_mx (logev e w) c = cond_mx w c"
  by (simp add: cond_mx_def)

lemma cond_mx_frame [simp]:
  "cond_mx (w\<lparr>conds := cs\<rparr>) c = cond_mx w c"
  "cond_mx (w\<lparr>mutexes := ms\<rparr>) c = cond_mx w c"
  "cond_mx (set_owner a ow w) c = cond_mx w c"
  "cond_mx (static_lock w) c = cond_mx w c"
  "cond_mx (static_unlock w) c = cond_mx w c"
  "cond_mx (attr_computed b p w) c = cond_mx w c"
  by (simp_all add: cond_mx_def)

lemma cond_mx_set: "heap w c \<noteq> None \<Longrightarrow> cond_mx (set_cond_mx c mx w) c = Some mx"
  by (auto simp add: cond_mx_def set_cond_mx_def)

lemma nni_cond_attr_heap:
  "is_Return (nni_cond_attr b p w) \<Longrightarrow> heap (ret_world (nni_cond_attr b p w)) = heap w"
  by (auto simp add: nni_cond_attr_eq pthread_condattr_init_def split: if_splits)

lemma nni_cond_attr_is_Return: "is_Return (nni_cond_attr b p w) = (\<not> attr_panics b p w)"
  using nni_cond_attr_panics [of b p w] by (cases "nni_cond_attr b p w") auto

lemma nni_cond_create_panics:
  "statics_ok b w \<Longrightarrow> is_Panic (nni_cond_create b p mx w) = attr_panics b p w"
  by (simp add: nni_cond_create_eq split: option.splits)

lemma attr_fails_not_panics: "attr_fails b p w \<Longrightarrow> \<not> attr_panics b p w"
  by (simp add: attr_fails_def attr_panics_def)

lemma nni_cond_create_enomem:
  "statics_ok b w \<Longrightarrow>
   (is_Return (nni_cond_create b p mx w) \<and> fst (ret_val (nni_cond_create b p mx w)) = NNG_ENOMEM)
     = (attr_fails b p w \<or> (\<not> attr_panics b p w \<and> (alloc_result p = None \<or> rv_cond_init p \<noteq> 0)))"
  by (auto simp add: nni_cond_create_eq dest: attr_fails_not_panics split: option.splits)

lemma pthread_cond_init_ok:
  "attr_ref_clock w r = Some clk \<Longrightarrow> rv_cond_init p = 0 \<Longrightarrow>
   snd (pthread_cond_init p c r w) =
     logev (Ev_cond_init c r 0) (w\<lparr>conds := (conds w)(c \<mapsto> \<lparr>cv_clock = clk\<rparr>)\<rparr>)"
  by (simp add: pthread_cond_init_def)

lemma nni_cond_create_success:
  assumes "statics_ok b w" and "is_Return (nni_cond_create b p mx w)"
    and "fst (ret_val (nni_cond_create b p mx w)) = OK"
  shows "\<exists>c. snd (ret_val (nni_cond_create b p mx w)) = Some c \<and> alloc_result p = Some c
             \<and> cond_mx (ret_world (nni_cond_create b p mx w)) c = Some mx
             \<and> conds (ret_world (nni_cond_create b p mx w)) c = Some \<lparr>cv_clock = resolved_clock b\<rparr>
             \<and> last (trace (ret_world (nni_cond_create b p mx w)))
                 = Ev_cond_init c (Some (resolved_attr b)) 0"
proof -
  from assms(2) nni_cond_create_panics [OF assms(1), of p mx] have np: "\<not> attr_panics b p w"
    by (cases "nni_cond_create b p mx w") auto
  from assms np have nf: "\<not> attr_fails b p w"
    by (auto simp add: nni_cond_create_eq)
  from assms np nf obtain c where c: "alloc_result p = Some c" and rv: "rv_cond_init p = 0"
    by (auto simp add: nni_cond_create_eq split: option.splits if_splits)
  from np have ret: "is_Return (nni_cond_attr b p w)" by (simp add: nni_cond_attr_is_Return)
  then obtain u w1 where a: "nni_cond_attr b p w = Return u w1" by (cases "nni_cond_attr b p w") auto
  with nf nni_cond_attr_fails [of b p w] have "fst u = OK" by auto
  then obtain r where u: "u = (OK, r)" by (cases u) auto
  from assms(1) a u have clk: "attr_ref_clock w1 (Some (resolved_attr b)) = Some (resolved_clock b)"
    using nni_cond_attr_resolves [of b w p r w1] by auto
  let ?w3 = "set_cond_mx c mx (snd (nni_alloc p (sizeof_nni_cond b) w1))"
  from clk have clk3: "attr_ref_clock ?w3 (Some (resolved_attr b)) = Some (resolved_clock b)"
    by (simp add: nni_alloc_def c)
  have h3: "heap (snd (nni_alloc p (sizeof_nni_cond b) w1)) c \<noteq> None"
    by (simp add: nni_alloc_def c)
  have eq: "nni_cond_create b p mx w =
      Return (OK, Some c) (snd (pthread_cond_init p c (Some (resolved_attr b)) ?w3))"
    using assms(1) np nf c rv a by (simp add: nni_cond_create_eq)
  show ?thesis
    using c h3 by (simp add: eq pthread_cond_init_ok [OF clk3 rv] cond_mx_set)
qed

lemma nni_cond_attr_heap_eq:
  "nni_cond_attr b p w = Return u w1 \<Longrightarrow> heap w1 = heap w"
  using nni_cond_attr_heap [of b p w] by simp

lemma heap_set_cond_mx_other: "c' \<noteq> c \<Longrightarrow> heap (set_cond_mx c' mx w) c = heap w c"
  by (simp add: set_cond_mx_def split: option.splits)

lemma heap_pthread_cond_init [simp]: "heap (snd (pthread_cond_init p c r w)) = heap w"
  by (simp add: pthread_cond_init_def split: option.splits)

lemma nni_cond_create_keeps_block:
  assumes "alloc_fresh p w" and "heap w c \<noteq> None" and "nni_cond_create b p mx w = Return v w'"
  shows "heap w' c = heap w c"
proof (cases "nni_cond_attr b p w")
  case (Panic msg)
  with assms(3) show ?thesis by (simp add: nni_cond_create_def)
next
  case (Return u w1)
  then have h: "heap w1 = heap w" by (rule nni_cond_attr_heap_eq)
  obtain rv r where u: "u = (rv, r)" by (cases u)
  show ?thesis
  proof (cases "alloc_result p")
    case None
    with assms(3) Return u h show ?thesis
      by (auto simp add: nni_cond_create_def nni_alloc_def split: if_splits)
  next
    case (Some c')
    with assms(1,2) have ne: "c' \<noteq> c" by (auto simp add: alloc_fresh_def)
    with assms(3) Return u h Some ne show ?thesis
      by (auto simp add: nni_cond_create_def nni_alloc_def nni_free_def Let_def split_beta
            heap_set_cond_mx_other split: if_splits)
  qed
qed

lemma api_keeps_block:
  assumes "alloc_fresh p w" and "heap w c \<noteq> None" and "k \<noteq> Call_cond_destroy c"
    and "k \<noteq> Call_mutex_destroy c" and "api b p k w = Some w'"
  shows "heap w' c = heap w c"
proof (cases k)
  case (Call_cond_create mx)
  with assms show ?thesis
    by (auto simp add: after_def split: outcome.splits dest: nni_cond_create_keeps_block)
next
  case Call_mutex_create
  with assms show ?thesis
    by (auto simp add: after_def nni_mutex_create_def native_defs alloc_fresh_def
          split: outcome.splits option.splits if_splits)
qed (use assms in \<open>auto simp add: after_def nni_mutex_init_def nni_mutex_fini_def
       nni_mutex_destroy_def nni_mutex_enter_def nni_mutex_exit_def nni_mutex_tryenter_def
       nni_cond_destroy_def nni_cond_signal_def nni_cond_broadcast_def nni_cond_wait_def
       nni_cond_timedwait_def native_defs Let_def
       split: outcome.splits option.splits if_splits\<close>)

lemma outstanding_append:
  "outstanding (xs @ ys) acc = outstanding ys (outstanding xs acc)"
  by (induction xs acc rule: outstanding.induct) simp_all

lemma nni_cond_attr_frame:
  assumes "nni_cond_attr b p w = Return u w1"
  shows "heap w1 = heap w \<and> mutexes w1 = mutexes w \<and> conds w1 = conds w
         \<and> (\<exists>es. trace w1 = trace w @ es \<and> (\<forall>acc. outstanding es acc = acc))"
  using assms
  by (auto simp add: nni_cond_attr_eq pthread_condattr_init_def split: if_splits)

lemma pthread_cond_init_frame [simp]:
  "mutexes (snd (pthread_cond_init p c r w)) = mutexes w"
  "trace (snd (pthread_cond_init p c r w)) = trace w @ [Ev_cond_init c r (fst (pthread_cond_init p c r w))]"
  "fst (pthread_cond_init p c r w) \<noteq> 0 \<Longrightarrow> conds (snd (pthread_cond_init p c r w)) = conds w"
  by (auto simp add: pthread_cond_init_def split: option.splits)

lemma heap_set_cond_mx_free:
  "(heap (set_cond_mx c mx w))(c := None) = (heap w)(c := None)"
  by (simp add: set_cond_mx_def split: option.splits)

lemma nni_mutex_create_clean:
  assumes "alloc_fresh p w" and "is_Return (nni_mutex_create b p w)"
  shows "if fst (ret_val (nni_mutex_create b p w)) = OK
      then snd (ret_val (nni_mutex_create b p w)) = alloc_result p \<and> alloc_result p \<noteq> None
      else snd (ret_val (nni_mutex_create b p w)) = None
        \<and> heap (ret_world (nni_mutex_create b p w)) = heap w
        \<and> mutexes (ret_world (nni_mutex_create b p w)) = mutexes w
        \<and> conds (ret_world (nni_mutex_create b p w)) = conds w
        \<and> outstanding (drop (length (trace w)) (trace (ret_world (nni_mutex_create b p w)))) [] = []"
  using assms
  by (auto simp add: nni_mutex_create_def native_defs alloc_fresh_def split: option.splits)

lemma nni_cond_create_clean:
  assumes "alloc_fresh p w" and "is_Return (nni_cond_create b p mx w)"
  shows "if fst (ret_val (nni_cond_create b p mx w)) = OK
      then snd (ret_val (nni_cond_create b p mx w)) = alloc_result p \<and> alloc_result p \<noteq> None
      else snd (ret_val (nni_cond_create b p mx w)) = None
        \<and> heap (ret_world (nni_cond_create b p mx w)) = heap w
        \<and> mutexes (ret_world (nni_cond_create b p mx w)) = mutexes w
        \<and> conds (ret_world (nni_cond_create b p mx w)) = conds w
        \<and> outstanding (drop (length (trace w)) (trace (ret_world (nni_cond_create b p mx w)))) [] = []"
proof (cases "nni_cond_attr b p w")
  case (Panic msg)
  with assms(2) show ?thesis by (simp add: nni_cond_create_def)
next
  case (Return u w1)
  obtain rv r where u: "u = (rv, r)" by (cases u)
  from Return obtain es where fr: "heap w1 = heap w" "mutexes w1 = mutexes w" "conds w1 = conds w"
      "trace w1 = trace w @ es" "\<And>acc. outstanding es acc = acc"
    using nni_cond_attr_frame [of b p w u w1] by auto
  show ?thesis
  proof (cases "alloc_result p")
    case None
    with Return u fr show ?thesis
      by (simp add: nni_cond_create_def nni_alloc_def outstanding_append)
  next
    case (Some c)
    with assms(1) have "heap w c = None" by (simp add: alloc_fresh_def)
    then have restored: "(heap w)(c := None) = heap w" by (simp add: fun_upd_idem)
    from Return u fr Some restored show ?thesis
      by (simp add: nni_cond_create_def nni_alloc_def nni_free_def Let_def split_beta
            outstanding_append heap_set_cond_mx_free)
  qed
qed

lemma nni_cond_create_frozen:
  assumes "init_static w \<noteq> 0" and "nni_cond_create b p mx w = Return v w'"
  shows "init_static w' = init_static w \<and> attr_static w' = attr_static w"
proof -
  from assms(1) have "nni_cond_attr b p w = Return (OK, Some (resolved_attr b)) w"
    by (simp add: nni_cond_attr_eq resolved_attr_def)
  with assms(2) show ?thesis
    by (auto simp add: nni_cond_create_def nni_alloc_def nni_free_def pthread_cond_init_def
          Let_def split: option.splits if_splits)
qed

lemma api_frozen:
  assumes "init_static w \<noteq> 0" and "api b p k w = Some w'"
  shows "init_static w' = init_static w \<and> attr_static w' = attr_static w"
proof (cases k)
  case (Call_cond_create mx)
  with assms show ?thesis
    by (auto simp add: after_def split: outcome.splits dest: nni_cond_create_frozen)
next
  case Call_mutex_create
  with assms show ?thesis
    by (auto simp add: after_def nni_mutex_create_def native_defs
          split: outcome.splits option.splits if_splits)
qed (use assms in \<open>auto simp add: after_def nni_mutex_init_def nni_mutex_fini_def
       nni_mutex_destroy_def nni_mutex_enter_def nni_mutex_exit_def nni_mutex_tryenter_def
       nni_cond_destroy_def nni_cond_signal_def nni_cond_broadcast_def nni_cond_wait_def
       nni_cond_timedwait_def native_defs Let_def
       split: outcome.splits option.splits if_splits\<close>)

lemma run_frozen:
  "init_static w \<noteq> 0 \<Longrightarrow> run b cs w = Some w' \<Longrightarrow>
   init_static w' = init_static w \<and> attr_static w' = attr_static w"
proof (induction cs arbitrary: w)
  case Nil
  then show ?case by simp
next
  case (Cons pk cs)
  obtain p k where pk: "pk = (p, k)" by (cases pk)
  from Cons.prems(2) pk obtain w1 where step: "api b p k w = Some w1" and rest: "run b cs w1 = Some w'"
    by (auto split: option.splits)
  from Cons.prems(1) step have same: "init_static w1 = init_static w \<and> attr_static w1 = attr_static w"
    by (rule api_frozen)
  with Cons.prems(1) have "init_static w1 \<noteq> 0" by simp
  from Cons.IH [OF this rest] same show ?case by simp
qed

subsection \<open>Threads in \<open>nni_cond_attr\<close>\<close>

lemma computations_upd [simp]:
  "computations (w\<lparr>init_static := i\<rparr>) = computations w"
  "computations (w\<lparr>mx_static := m\<rparr>) = computations w"
  "computations (w\<lparr>attr_static := a\<rparr>) = computations w"
  by (simp_all add: computations_def logev_def)

lemmas place_defs = critical_def computing_def unset_here_def set_here_def

lemma threads_ok_start: "threads_ok b (world0, \<lambda>t. Idle)"
  by (simp add: threads_ok_def sole_def nobody_def place_defs world0_def computations_def)

text \<open>What changing one thread's place does to each part of the invariant.\<close>

lemma nobody_upd_other:
  "\<not> P (pcs t) \<Longrightarrow> nobody P (pcs(t := q)) = (\<not> P q \<and> nobody P pcs)"
  unfolding nobody_def by (metis fun_upd_apply)

lemma nobody_upd_sole:
  assumes "sole pcs" and "critical (pcs t)" and "\<And>q. P q \<Longrightarrow> critical q"
  shows "nobody P (pcs(t := q)) = (\<not> P q)"
  using assms unfolding nobody_def sole_def by (metis fun_upd_apply)

lemma nobody_now_sole:
  assumes "sole pcs" and "critical (pcs t)" and "\<And>q. P q \<Longrightarrow> critical q"
  shows "nobody P pcs = (\<not> P (pcs t))"
  using assms unfolding nobody_def sole_def by metis

lemma sole_upd_in: "sole pcs \<Longrightarrow> critical (pcs t) \<Longrightarrow> sole (pcs(t := q))"
  unfolding sole_def by (metis fun_upd_apply)

lemma sole_upd_out: "sole pcs \<Longrightarrow> \<not> critical q \<Longrightarrow> sole (pcs(t := q))"
  unfolding sole_def by (metis fun_upd_apply)

lemma sole_upd_first: "nobody critical pcs \<Longrightarrow> sole (pcs(t := q))"
  unfolding sole_def nobody_def by (metis fun_upd_apply)

lemma nobody_critical: "nobody critical pcs \<Longrightarrow> nobody unset_here pcs \<and> nobody computing pcs
    \<and> nobody (\<lambda>q. q = L161) pcs \<and> nobody (\<lambda>q. q = L157) pcs \<and> (\<forall>t. pcs t \<noteq> L163)"
  unfolding nobody_def place_defs by auto

lemma in_upd:
  assumes "sole pcs" and "critical (pcs t)"
  shows "nobody critical (pcs(t := q)) = (\<not> critical q)"
    and "nobody unset_here (pcs(t := q)) = (\<not> unset_here q)"
    and "nobody computing (pcs(t := q)) = (\<not> computing q)"
    and "nobody (\<lambda>q. q = L161) (pcs(t := q)) = (q \<noteq> L161)"
    and "nobody (\<lambda>q. q = L157) (pcs(t := q)) = (q \<noteq> L157)"
proof -
  show "nobody critical (pcs(t := q)) = (\<not> critical q)"
    using assms by (rule nobody_upd_sole)
  show "nobody unset_here (pcs(t := q)) = (\<not> unset_here q)"
    using assms by (rule nobody_upd_sole) (auto simp add: place_defs)
  show "nobody computing (pcs(t := q)) = (\<not> computing q)"
    using assms by (rule nobody_upd_sole) (auto simp add: place_defs)
  show "nobody (\<lambda>q. q = L161) (pcs(t := q)) = (q \<noteq> L161)"
    using assms by (rule nobody_upd_sole) (auto simp add: place_defs)
  show "nobody (\<lambda>q. q = L157) (pcs(t := q)) = (q \<noteq> L157)"
    using assms by (rule nobody_upd_sole) (auto simp add: place_defs)
qed

lemma in_now:
  assumes "sole pcs" and "critical (pcs t)"
  shows "nobody unset_here pcs = (\<not> unset_here (pcs t))"
    and "nobody computing pcs = (\<not> computing (pcs t))"
    and "nobody (\<lambda>q. q = L161) pcs = (pcs t \<noteq> L161)"
    and "nobody (\<lambda>q. q = L157) pcs = (pcs t \<noteq> L157)"
proof -
  show "nobody unset_here pcs = (\<not> unset_here (pcs t))"
    using assms by (rule nobody_now_sole) (auto simp add: place_defs)
  show "nobody computing pcs = (\<not> computing (pcs t))"
    using assms by (rule nobody_now_sole) (auto simp add: place_defs)
  show "nobody (\<lambda>q. q = L161) pcs = (pcs t \<noteq> L161)"
    using assms by (rule nobody_now_sole) (auto simp add: place_defs)
  show "nobody (\<lambda>q. q = L157) pcs = (pcs t \<noteq> L157)"
    using assms by (rule nobody_now_sole) (auto simp add: place_defs)
qed

lemma threads_ok_in:
  assumes "threads_ok b (w, pcs)" and "critical (pcs t)"
  shows "sole pcs" and "mx_static w" and "unset_here (pcs t) \<Longrightarrow> init_static w = 0"
    and "computations w = (if init_static w = 0 \<and> \<not> computing (pcs t) then 0 else 1)"
    and "init_static w = 0 \<and> pcs t \<noteq> L161 \<or> attr_static w = Some \<lparr>attr_clock = NNG_USE_CLOCKID b\<rparr>"
    and "pcs t \<noteq> L157 \<or> attr_static w \<noteq> None"
    and "init_static w \<noteq> 0 \<or> nobody set_here pcs"
proof -
  from assms(1) show s: "sole pcs" by (simp add: threads_ok_def)
  note now = in_now [OF s assms(2)]
  have c: "\<not> nobody critical pcs" using assms(2) by (auto simp add: nobody_def)
  from assms(1) c show "mx_static w" by (simp add: threads_ok_def)
  from assms(1) show "unset_here (pcs t) \<Longrightarrow> init_static w = 0"
    by (auto simp add: threads_ok_def nobody_def)
  from assms(1) show "computations w = (if init_static w = 0 \<and> \<not> computing (pcs t) then 0 else 1)"
    using now(2) by (simp add: threads_ok_def)
  from assms(1) show "init_static w = 0 \<and> pcs t \<noteq> L161 \<or> attr_static w = Some \<lparr>attr_clock = NNG_USE_CLOCKID b\<rparr>"
    using now(3) by (simp add: threads_ok_def)
  from assms(1) show "pcs t \<noteq> L157 \<or> attr_static w \<noteq> None"
    using now(4) by (simp add: threads_ok_def)
  from assms(1) show "init_static w \<noteq> 0 \<or> nobody set_here pcs" by (simp add: threads_ok_def)
qed

lemma threads_ok_attr_init:
  assumes "pcs t = L153" and "threads_ok b (w, pcs)"
  shows "threads_ok b (snd (pthread_condattr_init p w),
           pcs(t := if rv_condattr_init p \<noteq> 0 then L154 else L157))"
proof -
  have crit: "critical (pcs t)" using assms(1) by (simp add: critical_def)
  note I = threads_ok_in [OF assms(2) crit]
  note upd = in_upd [OF I(1) crit]
  from I assms(1) show ?thesis
    by (simp add: threads_ok_def sole_upd_in crit upd place_defs pthread_condattr_init_def
          computed_def nobody_upd_other)
qed

lemma nobody_upd_weak: "nobody P pcs \<Longrightarrow> \<not> P q \<Longrightarrow> nobody P (pcs(t := q))"
  by (simp add: nobody_def)

lemma threads_ok_out:
  assumes "threads_ok b (w, pcs)" and "\<not> critical (pcs t)" and "\<not> critical q"
    and "set_here q \<Longrightarrow> init_static w \<noteq> 0"
  shows "threads_ok b (w, pcs(t := q))"
proof -
  from assms(2) have before: "\<not> unset_here (pcs t)" "\<not> computing (pcs t)" "pcs t \<noteq> L161" "pcs t \<noteq> L157"
    by (auto simp add: place_defs)
  from assms(3) have after: "\<not> unset_here q" "\<not> computing q" "q \<noteq> L161" "q \<noteq> L157"
    by (auto simp add: place_defs)
  have keep: "nobody set_here pcs \<Longrightarrow> \<not> set_here q \<Longrightarrow> nobody set_here (pcs(t := q))"
    by (rule nobody_upd_weak)
  from assms before after show ?thesis
    by (auto simp add: threads_ok_def sole_upd_out nobody_upd_other intro: keep)
qed

lemma threads_ok_call:
  assumes "pcs t = Idle \<or> pcs t = Returned r" and "threads_ok b (w, pcs)"
  shows "threads_ok b (w, pcs(t := if wall_clock_build b then Returned (OK, Some Null) else L146))"
  using assms by (intro threads_ok_out) (auto simp add: place_defs split: if_splits)

lemma threads_ok_test_fast:
  assumes "pcs t = L146" and "threads_ok b (w, pcs)"
  shows "threads_ok b (w, pcs(t := if init_static w \<noteq> 0 then Returned (OK, Some Static_attr) else L151))"
  using assms by (intro threads_ok_out) (auto simp add: place_defs)

lemma threads_ok_lock:
  assumes "pcs t = L151" and "\<not> mx_static w" and "threads_ok b (w, pcs)"
  shows "threads_ok b (static_lock w, pcs(t := L152))"
proof -
  from assms(2,3) have none: "nobody critical pcs" by (simp add: threads_ok_def)
  note rest = nobody_critical [OF none]
  have before: "\<not> set_here (pcs t)" "\<not> unset_here (pcs t)" "\<not> computing (pcs t)"
      "pcs t \<noteq> L161" "pcs t \<noteq> L157"
    using assms(1) by (simp_all add: place_defs)
  from assms(3) rest before show ?thesis
    by (simp add: threads_ok_def sole_upd_first [OF none] nobody_upd_other place_defs
          static_lock_def computed_def)
qed

lemma threads_ok_test_loop:
  assumes "pcs t = L152" and "threads_ok b (w, pcs)"
  shows "threads_ok b (w, pcs(t := if init_static w = 0 then L153 else L163))"
proof -
  have crit: "critical (pcs t)" using assms(1) by (simp add: critical_def)
  note I = threads_ok_in [OF assms(2) crit]
  note upd = in_upd [OF I(1) crit]
  have keep: "nobody set_here pcs \<Longrightarrow> \<not> set_here q \<Longrightarrow> nobody set_here (pcs(t := q))" for q
    by (rule nobody_upd_weak)
  from I assms(1) show ?thesis
    by (auto simp add: threads_ok_def sole_upd_in crit upd place_defs intro: keep)
qed

lemma threads_ok_give_up:
  assumes "pcs t = L154" and "threads_ok b (w, pcs)"
  shows "threads_ok b (static_unlock w, pcs(t := Returned (NNG_ENOMEM, None)))"
proof -
  have crit: "critical (pcs t)" using assms(1) by (simp add: critical_def)
  note I = threads_ok_in [OF assms(2) crit]
  note upd = in_upd [OF I(1) crit]
  have keep: "nobody set_here pcs \<Longrightarrow> \<not> set_here q \<Longrightarrow> nobody set_here (pcs(t := q))" for q
    by (rule nobody_upd_weak)
  from I assms(1) show ?thesis
    by (auto simp add: threads_ok_def sole_upd_in crit upd place_defs static_unlock_def
          computed_def intro: keep)
qed

lemma threads_ok_setclock:
  assumes "pcs t = L157" and "rv_condattr_setclock p = 0" and "threads_ok b (w, pcs)"
  shows "threads_ok b (snd (pthread_condattr_setclock p (NNG_USE_CLOCKID b) w), pcs(t := L161))"
proof -
  have crit: "critical (pcs t)" using assms(1) by (simp add: critical_def)
  note I = threads_ok_in [OF assms(3) crit]
  note upd = in_upd [OF I(1) crit]
  have keep: "nobody set_here pcs \<Longrightarrow> \<not> set_here q \<Longrightarrow> nobody set_here (pcs(t := q))" for q
    by (rule nobody_upd_weak)
  from I assms(1,2) show ?thesis
    by (auto simp add: threads_ok_def sole_upd_in crit upd place_defs
          pthread_condattr_setclock_def computed_def intro: keep)
qed

lemma threads_ok_set_init:
  assumes "pcs t = L161" and "threads_ok b (w, pcs)"
  shows "threads_ok b (w\<lparr>init_static := 1\<rparr>, pcs(t := L152))"
proof -
  have crit: "critical (pcs t)" using assms(1) by (simp add: critical_def)
  note I = threads_ok_in [OF assms(2) crit]
  note upd = in_upd [OF I(1) crit]
  from I assms(1) show ?thesis
    by (auto simp add: threads_ok_def sole_upd_in crit upd place_defs)
qed

lemma threads_ok_unlock:
  assumes "pcs t = L163" and "threads_ok b (w, pcs)"
  shows "threads_ok b (static_unlock w, pcs(t := Returned (OK, Some Static_attr)))"
proof -
  have crit: "critical (pcs t)" using assms(1) by (simp add: critical_def)
  note I = threads_ok_in [OF assms(2) crit]
  note upd = in_upd [OF I(1) crit]
  from assms have set: "init_static w \<noteq> 0"
    by (auto simp add: threads_ok_def nobody_def set_here_def)
  from I assms(1) set show ?thesis
    by (auto simp add: threads_ok_def sole_upd_in crit upd place_defs static_unlock_def computed_def)
qed

lemma threads_ok_step:
  assumes "step b c c'" and "threads_ok b c"
  shows "threads_ok b c'"
  using assms
proof (induction rule: step.induct)
  case (call pcs t r w)
  then show ?case by (rule threads_ok_call)
next
  case (test_fast pcs t w)
  then show ?case by (rule threads_ok_test_fast)
next
  case (lock pcs t w)
  then show ?case by (rule threads_ok_lock)
next
  case (test_loop pcs t w)
  then show ?case by (rule threads_ok_test_loop)
next
  case (attr_init pcs t w p)
  then show ?case by (rule threads_ok_attr_init)
next
  case (give_up pcs t w)
  then show ?case by (rule threads_ok_give_up)
next
  case (setclock pcs t p w)
  then show ?case by (rule threads_ok_setclock)
next
  case (set_init pcs t w)
  then show ?case by (rule threads_ok_set_init)
next
  case (unlock pcs t w)
  then show ?case by (rule threads_ok_unlock)
qed

lemma reach_threads_ok: "reach b c \<Longrightarrow> threads_ok b c"
  by (induction rule: reach.induct) (auto intro: threads_ok_start threads_ok_step)

lemma reach_once:
  assumes "reach b (w, pcs)"
  shows "computations w \<le> 1"
    and "pcs t = Returned (OK, Some Static_attr) \<Longrightarrow>
           init_static w \<noteq> 0 \<and> attr_static w = Some \<lparr>attr_clock = NNG_USE_CLOCKID b\<rparr>"
proof -
  from assms have ok: "threads_ok b (w, pcs)" by (rule reach_threads_ok)
  then show "computations w \<le> 1" by (simp add: threads_ok_def)
  assume "pcs t = Returned (OK, Some Static_attr)"
  then have "\<not> nobody set_here pcs" by (auto simp add: nobody_def set_here_def)
  with ok show "init_static w \<noteq> 0 \<and> attr_static w = Some \<lparr>attr_clock = NNG_USE_CLOCKID b\<rparr>"
    by (auto simp add: threads_ok_def)
qed

lemma reach_steps: "steps b c c' \<Longrightarrow> reach b c \<Longrightarrow> reach b c'"
  by (induction rule: rtranclp_induct) (auto intro: reach.move)

lemma solo:
  assumes "pcs t = Idle \<or> pcs t = Returned r0" and "\<not> mx_static w"
    and "nni_cond_attr b p w = Return r w'"
  shows "steps b (w, pcs) (w', pcs(t := Returned r))"
proof -
  have s0: "step b (w, pcs)
      (w, pcs(t := if wall_clock_build b then Returned (OK, Some Null) else L146))"
    using assms(1) by (rule step.call)
  show ?thesis
  proof (cases "wall_clock_build b")
    case True
    with assms(3) have "w' = w" "r = (OK, Some Null)" by (simp_all add: nni_cond_attr_eq)
    with s0 True show ?thesis by auto
  next
    case False
    let ?p1 = "pcs(t := L146)"
    from s0 False have a1: "steps b (w, pcs) (w, ?p1)" by auto
    have s1: "step b (w, ?p1)
        (w, ?p1(t := if init_static w \<noteq> 0 then Returned (OK, Some Static_attr) else L151))"
      by (rule step.test_fast) simp
    show ?thesis
    proof (cases "init_static w = 0")
      case set: False
      with assms(3) False have "w' = w" "r = (OK, Some Static_attr)"
        by (simp_all add: nni_cond_attr_eq)
      with s1 set a1 show ?thesis by (auto intro: rtranclp.rtrancl_into_rtrancl)
    next
      case unset: True
      with s1 a1 have a2: "steps b (w, pcs) (w, pcs(t := L151))"
        by (auto intro: rtranclp.rtrancl_into_rtrancl)
      have "step b (w, pcs(t := L151)) (static_lock w, (pcs(t := L151))(t := L152))"
        using assms(2) by (intro step.lock) simp_all
      with a2 have a3: "steps b (w, pcs) (static_lock w, pcs(t := L152))"
        by (auto intro: rtranclp.rtrancl_into_rtrancl)
      have "step b (static_lock w, pcs(t := L152))
          (static_lock w, (pcs(t := L152))(t := if init_static (static_lock w) = 0 then L153 else L163))"
        by (rule step.test_loop) simp
      with a3 unset have a4: "steps b (w, pcs) (static_lock w, pcs(t := L153))"
        by (auto intro: rtranclp.rtrancl_into_rtrancl)
      let ?w1 = "snd (pthread_condattr_init p (static_lock w))"
      have "step b (static_lock w, pcs(t := L153))
          (?w1, (pcs(t := L153))(t := if rv_condattr_init p \<noteq> 0 then L154 else L157))"
        by (rule step.attr_init) simp
      with a4 have a5: "steps b (w, pcs) (?w1, pcs(t := if rv_condattr_init p \<noteq> 0 then L154 else L157))"
        by (auto intro: rtranclp.rtrancl_into_rtrancl)
      show ?thesis
      proof (cases "rv_condattr_init p = 0")
        case failed: False
        with assms(3) False unset have res: "w' = static_unlock ?w1" "r = (NNG_ENOMEM, None)"
          by (simp_all add: nni_cond_attr_eq)
        have "step b (?w1, pcs(t := L154))
            (static_unlock ?w1, (pcs(t := L154))(t := Returned (NNG_ENOMEM, None)))"
          by (rule step.give_up) simp
        with a5 failed res show ?thesis by (auto intro: rtranclp.rtrancl_into_rtrancl)
      next
        case True
        with assms(3) False unset have clk: "rv_condattr_setclock p = 0"
          and res: "w' = static_unlock (attr_computed b p (static_lock w))" "r = (OK, Some Static_attr)"
          by (simp_all add: nni_cond_attr_eq split: if_splits)
        let ?w2 = "snd (pthread_condattr_setclock p (NNG_USE_CLOCKID b) ?w1)"
        have "step b (?w1, pcs(t := L157)) (?w2, (pcs(t := L157))(t := L161))"
          using clk by (intro step.setclock) simp_all
        with a5 True have a6: "steps b (w, pcs) (?w2, pcs(t := L161))"
          by (auto intro: rtranclp.rtrancl_into_rtrancl)
        have "step b (?w2, pcs(t := L161)) (?w2\<lparr>init_static := 1\<rparr>, (pcs(t := L161))(t := L152))"
          by (rule step.set_init) simp
        with a6 have a7: "steps b (w, pcs) (attr_computed b p (static_lock w), pcs(t := L152))"
          by (auto simp add: attr_computed_def intro: rtranclp.rtrancl_into_rtrancl)
        let ?w3 = "attr_computed b p (static_lock w)"
        have "step b (?w3, pcs(t := L152))
            (?w3, (pcs(t := L152))(t := if init_static ?w3 = 0 then L153 else L163))"
          by (rule step.test_loop) simp
        with a7 have a8: "steps b (w, pcs) (?w3, pcs(t := L163))"
          by (auto intro: rtranclp.rtrancl_into_rtrancl)
        have "step b (?w3, pcs(t := L163))
            (static_unlock ?w3, (pcs(t := L163))(t := Returned (OK, Some Static_attr)))"
          by (rule step.unlock) simp
        with a8 res show ?thesis by (auto intro: rtranclp.rtrancl_into_rtrancl)
      qed
    qed
  qed
qed

subsection \<open>The sample inputs evaluated\<close>

lemma cond_world_eval:
  "nni_cond_create monotonic_build all_succeed 5 world0 = Return (OK, Some 1) cond_world"
  "heap cond_world = [1 \<mapsto> \<lparr>blk_size = 56, blk_mx = Some 5\<rparr>]"
  "conds cond_world = [1 \<mapsto> \<lparr>cv_clock = CLOCK_MONOTONIC\<rparr>]"
  "init_static cond_world = 1"
  "attr_static cond_world = Some \<lparr>attr_clock = CLOCK_MONOTONIC\<rparr>"
  "trace cond_world = [Ev_static_lock, Ev_condattr_init 0, Ev_condattr_setclock CLOCK_MONOTONIC 0,
     Ev_static_unlock, Ev_alloc 56 (Some 1), Ev_cond_init 1 (Some Static_attr) 0]"
  by (simp_all add: cond_world_def nni_cond_create_def nni_cond_attr_eq pthread_condattr_init_def
        pthread_cond_init_def nni_alloc_def set_cond_mx_def attr_ref_clock_def
        all_succeed_def monotonic_build_def wall_clock_build_def world0_def
        CLOCK_MONOTONIC_def CLOCK_REALTIME_def)

lemma statics_ok_cond_world: "statics_ok monotonic_build cond_world"
  by (simp add: statics_ok_def cond_world_eval computations_def computed_def monotonic_build_def)

lemma second_cond_eval:
  "is_Return (nni_cond_create monotonic_build (all_succeed\<lparr>alloc_result := Some 2\<rparr>) 6 cond_world)"
  "heap (ret_world (nni_cond_create monotonic_build (all_succeed\<lparr>alloc_result := Some 2\<rparr>) 6 cond_world))
     = [1 \<mapsto> \<lparr>blk_size = 56, blk_mx = Some 5\<rparr>, 2 \<mapsto> \<lparr>blk_size = 56, blk_mx = Some 6\<rparr>]"
  by (simp_all add: nni_cond_create_def nni_cond_attr_eq cond_world_eval
        pthread_cond_init_def nni_alloc_def set_cond_mx_def attr_ref_clock_def
        all_succeed_def monotonic_build_def wall_clock_build_def
        CLOCK_MONOTONIC_def CLOCK_REALTIME_def)

lemma sample_facts:
  "alloc_result all_succeed = Some 1"
  "\<not> wall_clock_build monotonic_build"
  "wall_clock_build wall_build"
  "resolved_clock monotonic_build = CLOCK_MONOTONIC"
  "resolved_attr monotonic_build = Static_attr"
  "NNG_USE_CLOCKID monotonic_build = CLOCK_MONOTONIC"
  "sizeof_nni_mutex monotonic_build = 40"
  "sizeof_nni_cond monotonic_build = 56"
  by (simp_all add: all_succeed_def monotonic_build_def wall_build_def wall_clock_build_def
        resolved_clock_def resolved_attr_def CLOCK_MONOTONIC_def CLOCK_REALTIME_def)

lemma attr_world_eval:
  "nni_cond_attr monotonic_build all_succeed world0 = Return (OK, Some Static_attr) attr_world"
  "init_static attr_world = 1"
  "attr_static attr_world = Some \<lparr>attr_clock = CLOCK_MONOTONIC\<rparr>"
  "trace attr_world = [Ev_static_lock, Ev_condattr_init 0, Ev_condattr_setclock CLOCK_MONOTONIC 0,
     Ev_static_unlock]"
  by (simp_all add: attr_world_def nni_cond_attr_eq sample_facts all_succeed_def world0_def)

lemma attr_world_unlocked: "mx_static attr_world = False"
  by (simp add: attr_world_def nni_cond_attr_eq sample_facts all_succeed_def world0_def)

lemma reach_raced: "reach monotonic_build (raced_world, both_returned)"
proof -
  let ?b = monotonic_build
  let ?R = "Returned (OK, Some Static_attr)"
  let ?p0 = "\<lambda>t::tid. Idle"
  have i0: "init_static world0 = 0" and m0: "\<not> mx_static world0" by (simp_all add: world0_def)
  have r0: "reach ?b (world0, ?p0)" by (rule reach.start)
  have "step ?b (world0, ?p0)
      (world0, ?p0(1 := if wall_clock_build ?b then Returned (OK, Some Null) else L146))"
    by (rule step.call [where r = "(OK, None)"]) simp
  with r0 have r1: "reach ?b (world0, ?p0(1 := L146))"
    by (auto simp add: sample_facts intro: reach.move)
  have "step ?b (world0, ?p0(1 := L146))
      (world0, (?p0(1 := L146))(1 := if init_static world0 \<noteq> 0 then ?R else L151))"
    by (rule step.test_fast) simp
  with r1 i0 have r2: "reach ?b (world0, ?p0(1 := L151))"
    by (auto intro: reach.move)
  have "steps ?b (world0, ?p0(1 := L151)) (attr_world, (?p0(1 := L151))(2 := ?R))"
    using solo [where pcs = "?p0(1 := L151)" and t = 2 and w = world0 and b = ?b
        and p = all_succeed and r = "(OK, Some Static_attr)" and w' = attr_world]
      m0 attr_world_eval(1)
    by simp
  then have r3: "reach ?b (attr_world, (?p0(1 := L151))(2 := ?R))"
    using r2 by (rule reach_steps)
  have "step ?b (attr_world, (?p0(1 := L151))(2 := ?R))
      (static_lock attr_world, ((?p0(1 := L151))(2 := ?R))(1 := L152))"
    by (rule step.lock) (simp_all add: attr_world_unlocked)
  with r3 have r4: "reach ?b (static_lock attr_world, ((?p0(1 := L151))(2 := ?R))(1 := L152))"
    by (rule reach.move)
  have "step ?b (static_lock attr_world, ((?p0(1 := L151))(2 := ?R))(1 := L152))
      (static_lock attr_world, (((?p0(1 := L151))(2 := ?R))(1 := L152))
         (1 := if init_static (static_lock attr_world) = 0 then L153 else L163))"
    by (rule step.test_loop) simp
  with r4 have r5: "reach ?b (static_lock attr_world, ((?p0(1 := L151))(2 := ?R))(1 := L163))"
    by (auto simp add: attr_world_eval(2) intro: reach.move)
  have "step ?b (static_lock attr_world, ((?p0(1 := L151))(2 := ?R))(1 := L163))
      (static_unlock (static_lock attr_world), (((?p0(1 := L151))(2 := ?R))(1 := L163))(1 := ?R))"
    by (rule step.unlock) simp
  with r5 have r6: "reach ?b (raced_world, ((?p0(1 := L151))(2 := ?R))(1 := ?R))"
    by (auto simp add: raced_world_def intro: reach.move)
  have "((?p0(1 := L151))(2 := ?R))(1 := ?R) = both_returned"
    by (rule ext) (simp add: both_returned_def)
  with r6 show ?thesis by simp
qed

lemma raced_world_eval:
  "trace raced_world = [Ev_static_lock, Ev_condattr_init 0, Ev_condattr_setclock CLOCK_MONOTONIC 0,
     Ev_static_unlock, Ev_static_lock, Ev_static_unlock]"
  "attr_static raced_world = Some \<lparr>attr_clock = CLOCK_MONOTONIC\<rparr>"
  "init_static raced_world = 1"
  by (simp_all add: raced_world_def attr_world_eval)

lemma mutex_create_eval:
  "is_Return (nni_mutex_create monotonic_build all_succeed world0)"
  "ret_val (nni_mutex_create monotonic_build all_succeed world0) = (OK, Some 1)"
  by (simp_all add: nni_mutex_create_def native_defs all_succeed_def)

lemma mutex_init_eval:
  "ret_val (nni_mutex_init all_succeed 3 world0) = OK"
  by (simp add: nni_mutex_init_def native_defs all_succeed_def)

lemma fail_eval:
  "alloc_fresh (all_succeed\<lparr>rv_mutex_init := 12\<rparr>) world0"
  "is_Return (nni_mutex_create monotonic_build (all_succeed\<lparr>rv_mutex_init := 12\<rparr>) world0)"
  "fst (ret_val (nni_mutex_create monotonic_build (all_succeed\<lparr>rv_mutex_init := 12\<rparr>) world0)) = NNG_ENOMEM"
  "trace (ret_world (nni_mutex_create monotonic_build (all_succeed\<lparr>rv_mutex_init := 12\<rparr>) world0))
     = [Ev_alloc 40 (Some 1), Ev_mutexattr_init 0, Ev_mutexattr_settype PTHREAD_MUTEX_ERRORCHECK 0,
        Ev_mutex_init 1 PTHREAD_MUTEX_ERRORCHECK 12, Ev_mutexattr_destroy 0, Ev_free 1 40]"
  "alloc_fresh (all_succeed\<lparr>rv_cond_init := 11\<rparr>) world0"
  "is_Return (nni_cond_create monotonic_build (all_succeed\<lparr>rv_cond_init := 11\<rparr>) 5 world0)"
  "fst (ret_val (nni_cond_create monotonic_build (all_succeed\<lparr>rv_cond_init := 11\<rparr>) 5 world0)) = NNG_ENOMEM"
  "trace (ret_world (nni_cond_create monotonic_build (all_succeed\<lparr>rv_cond_init := 11\<rparr>) 5 world0))
     = [Ev_static_lock, Ev_condattr_init 0, Ev_condattr_setclock CLOCK_MONOTONIC 0,
        Ev_static_unlock, Ev_alloc 56 (Some 1), Ev_cond_init 1 (Some Static_attr) 11, Ev_free 1 56]"
  by (simp_all add: nni_mutex_create_def nni_cond_create_def nni_cond_attr_eq native_defs
        attr_ref_clock_def set_cond_mx_def alloc_fresh_def attr_computed_def
        all_succeed_def monotonic_build_def wall_clock_build_def world0_def
        CLOCK_MONOTONIC_def CLOCK_REALTIME_def)

subsection \<open>The deadline of a timed wait\<close>

lemma uint_consts: "uint (10000 :: 64 word) = 10000" "uint (1000000 :: 64 word) = 1000000"
  "uint (1000 :: 64 word) = 1000"
  by simp_all

lemma timedwait_deadline_seconds:
  "tv_sec (timedwait_deadline now usec) = tv_sec (spec_deadline now usec)"
  by (simp add: timedwait_deadline_def spec_deadline_def Let_def add.commute)

lemma spec_deadline_nsec:
  "tv_nsec (spec_deadline now usec) = (uint (usec + now) mod 1000000) * 1000"
  unfolding spec_deadline_def Let_def
  by (simp only: timespec.simps uint_mod_distrib uint_consts add.commute)


lemma timedwait_deadline_nsec:
  "tv_nsec (timedwait_deadline now usec) = (uint (usec + now) mod 10000) * 1000"
proof -
  let ?r = "(usec + now) mod 10000"
  have m: "uint ?r = uint (usec + now) mod 10000"
    by (simp only: uint_mod_distrib uint_consts)
  have "uint (usec + now) mod 10000 < 10000" by simp
  with m have "uint ?r * uint (1000 :: 64 word) < 2 ^ LENGTH(64)"
    by (simp only: uint_consts) simp
  then have "uint (?r * 1000) = uint ?r * uint (1000 :: 64 word)"
    by (rule uint_mult_lem [THEN iffD1])
  with m have "uint (?r * 1000) = (uint (usec + now) mod 10000) * 1000"
    by (simp only: uint_consts)
  then show ?thesis
    unfolding timedwait_deadline_def Let_def by (simp only: timespec.simps)
qed


lemma mod_10000_of_mod_1000000:
  fixes n :: int
  assumes "0 \<le> n"
  shows "(n mod 10000 = n mod 1000000) = (n mod 1000000 < 10000)"
proof
  assume "n mod 10000 = n mod 1000000"
  moreover have "n mod 10000 < 10000" by simp
  ultimately show "n mod 1000000 < 10000" by simp
next
  assume a: "n mod 1000000 < 10000"
  have d: "(10000 :: int) dvd 1000000" by simp
  have "n mod 10000 = (n mod 1000000) mod 10000"
    using d by (simp only: mod_mod_cancel)
  also have "\<dots> = n mod 1000000"
    using a by (intro mod_pos_pos_trivial) simp_all
  finally show "n mod 10000 = n mod 1000000" .
qed

lemma timedwait_deadline_right_iff:
  "(timedwait_deadline now usec = spec_deadline now usec)
     = (uint (usec + now) mod 1000000 < 10000)"
proof -
  have "(timedwait_deadline now usec = spec_deadline now usec)
      = (tv_nsec (timedwait_deadline now usec) = tv_nsec (spec_deadline now usec))"
    using timedwait_deadline_seconds [of now usec]
    by (auto intro: timespec.equality)
  also have "\<dots> = (uint (usec + now) mod 10000 = uint (usec + now) mod 1000000)"
    by (simp only: timedwait_deadline_nsec spec_deadline_nsec) simp
  also have "\<dots> = (uint (usec + now) mod 1000000 < 10000)"
    by (rule mod_10000_of_mod_1000000) simp
  finally show ?thesis .
qed

text \<open>
  Claim C1 says that the deadline handed to the native timed wait is the clock plus the
  offset, split into whole seconds and the microsecond remainder in nanoseconds. The
  code takes the remainder modulo 10000, not 1000000. With the clock at one second and
  an offset of half a second the call hands over one second and zero nanoseconds, where
  the stated deadline has 500000000 nanoseconds. The seconds are always as stated; the
  whole deadline is as stated exactly when the microsecond remainder is below 10000.
\<close>

theorem nni_cond_timedwait_half_second:
  "nni_cond_timedwait (all_succeed\<lparr>nni_clock := 1000000\<rparr>) c 500000 w =
     Return OK (logev (Ev_cond_timedwait c (cond_mx w c) \<lparr>tv_sec = 1, tv_nsec = 0\<rparr> 0)
                  (logev (Ev_clock 1000000) w))
   \<and> spec_deadline 1000000 500000 = \<lparr>tv_sec = 1, tv_nsec = 500000000\<rparr>
   \<and> tv_sec (timedwait_deadline now usec) = tv_sec (spec_deadline now usec)
   \<and> (timedwait_deadline now usec = spec_deadline now usec)
       = (uint (usec + now) mod 1000000 < 10000)"
proof (intro conjI)
  show "nni_cond_timedwait (all_succeed\<lparr>nni_clock := 1000000\<rparr>) c 500000 w =
     Return OK (logev (Ev_cond_timedwait c (cond_mx w c) \<lparr>tv_sec = 1, tv_nsec = 0\<rparr> 0)
                  (logev (Ev_clock 1000000) w))"
    by (simp add: nni_cond_timedwait_def pthread_cond_timedwait_def all_succeed_def Let_def
          timedwait_deadline_def ETIMEDOUT_def cond_mx_def logev_def)
  show "spec_deadline 1000000 500000 = \<lparr>tv_sec = 1, tv_nsec = 500000000\<rparr>"
    by (simp add: spec_deadline_def Let_def)
  show "tv_sec (timedwait_deadline now usec) = tv_sec (spec_deadline now usec)"
    by (rule timedwait_deadline_seconds)
  show "(timedwait_deadline now usec = spec_deadline now usec)
       = (uint (usec + now) mod 1000000 < 10000)"
    by (rule timedwait_deadline_right_iff)
qed

subsection \<open>Creating a mutex\<close>

text \<open>
  Claim C2, as amended: \<open>nni_mutex_create\<close> returns \<open>NNG_ENOMEM\<close> exactly when the
  allocation fails, or the initialisation of the attribute object fails, or the native
  mutex fails to initialise after the attribute was configured and while its destruction
  succeeds; it panics exactly when, after a successful allocation and attribute
  initialisation, setting the type or destroying the attribute fails; it returns
  success exactly when every call succeeds.
\<close>

theorem nni_mutex_create_outcomes:
  "((is_Return (nni_mutex_create b p w) \<and> fst (ret_val (nni_mutex_create b p w)) = NNG_ENOMEM) =
      (alloc_result p = None \<or> rv_mutexattr_init p \<noteq> 0 \<or>
       (rv_mutexattr_settype p = 0 \<and> rv_mutexattr_destroy p = 0 \<and> rv_mutex_init p \<noteq> 0)))
   \<and> (is_Panic (nni_mutex_create b p w) =
      (alloc_result p \<noteq> None \<and> rv_mutexattr_init p = 0 \<and>
       (rv_mutexattr_settype p \<noteq> 0 \<or> rv_mutexattr_destroy p \<noteq> 0)))
   \<and> ((is_Return (nni_mutex_create b p w) \<and> fst (ret_val (nni_mutex_create b p w)) = OK) =
      (alloc_result p \<noteq> None \<and> rv_mutexattr_init p = 0 \<and> rv_mutexattr_settype p = 0 \<and>
       rv_mutex_init p = 0 \<and> rv_mutexattr_destroy p = 0))"
  by (auto simp add: nni_mutex_create_def native_defs split: option.splits)

theorem nni_mutex_create_outcomes_witness:
  "is_Panic (nni_mutex_create monotonic_build (all_succeed\<lparr>rv_mutexattr_settype := 22\<rparr>) world0)
   \<and> is_Return (nni_mutex_create monotonic_build (all_succeed\<lparr>rv_mutex_init := 12\<rparr>) world0)
   \<and> fst (ret_val (nni_mutex_create monotonic_build (all_succeed\<lparr>rv_mutex_init := 12\<rparr>) world0))
       = NNG_ENOMEM"
  using nni_mutex_create_outcomes [of monotonic_build "all_succeed\<lparr>rv_mutexattr_settype := 22\<rparr>" world0]
    nni_mutex_create_outcomes [of monotonic_build "all_succeed\<lparr>rv_mutex_init := 12\<rparr>" world0]
  by (simp add: all_succeed_def)

text \<open>
  The claim as stated fails: when the allocation succeeds and the initialisation of the
  attribute object fails, the block is released and \<open>NNG_ENOMEM\<close> is returned; there is
  no panic, and the native mutex is never reached.
\<close>

theorem nni_mutex_create_attr_init_failure:
  "alloc_result (all_succeed\<lparr>rv_mutexattr_init := 12\<rparr>) = Some 1
   \<and> rv_mutex_init (all_succeed\<lparr>rv_mutexattr_init := 12\<rparr>) = 0
   \<and> rv_mutexattr_init (all_succeed\<lparr>rv_mutexattr_init := 12\<rparr>) = 12
   \<and> \<not> is_Panic (nni_mutex_create monotonic_build (all_succeed\<lparr>rv_mutexattr_init := 12\<rparr>) world0)
   \<and> ret_val (nni_mutex_create monotonic_build (all_succeed\<lparr>rv_mutexattr_init := 12\<rparr>) world0)
       = (NNG_ENOMEM, None)
   \<and> trace (ret_world (nni_mutex_create monotonic_build (all_succeed\<lparr>rv_mutexattr_init := 12\<rparr>) world0))
       = [Ev_alloc 40 (Some 1), Ev_mutexattr_init 12, Ev_free 1 40]"
  by (simp add: nni_mutex_create_def native_defs all_succeed_def monotonic_build_def world0_def)

subsection \<open>Trying a lock\<close>

text \<open>
  Claim C3: \<open>nni_mutex_tryenter\<close> never panics and its only call to the platform is the
  native try-lock, which does not suspend the caller; on a mutex that some thread holds
  it returns \<open>NNG_EBUSY\<close> and leaves the lock as it was, on a free one it returns
  success and the caller holds the lock. The two other locking operations have no
  failure code: \<open>nni_mutex_enter\<close> and \<open>nni_mutex_exit\<close> return nothing on success and
  panic on every native failure.
\<close>

theorem nni_mutex_tryenter_busy_or_acquired:
  "\<not> is_Panic (nni_mutex_tryenter t m w)
   \<and> (mutexes w m = Some mu \<longrightarrow>
        nni_mutex_tryenter t m w =
          (case owner mu of
             Some holder \<Rightarrow> Return NNG_EBUSY (logev (Ev_mutex_trylock m EBUSY) w)
           | None \<Rightarrow>
               Return OK (logev (Ev_mutex_trylock m 0)
                            (w\<lparr>mutexes := (mutexes w)(m \<mapsto> mu\<lparr>owner := Some t\<rparr>)\<rparr>))))
   \<and> nni_mutex_enter p t m w =
        (if rv_mutex_lock p = 0
         then Return () (logev (Ev_mutex_lock m 0) (set_owner m (Some t) w))
         else Panic ''pthread_mutex_lock failed'')
   \<and> nni_mutex_exit p m w =
        (if rv_mutex_unlock p = 0
         then Return () (logev (Ev_mutex_unlock m 0) (set_owner m None w))
         else Panic ''pthread_mutex_unlock failed'')"
  by (simp add: nni_mutex_tryenter_def nni_mutex_enter_def nni_mutex_exit_def
        pthread_mutex_trylock_def pthread_mutex_lock_def pthread_mutex_unlock_def
        mutex_trylock_rv_def set_owner_def EBUSY_def split: option.splits)

theorem nni_mutex_tryenter_busy_or_acquired_witness:
  "mutexes held_world 1 = Some \<lparr>mtype = PTHREAD_MUTEX_ERRORCHECK, owner = Some 7\<rparr>
   \<and> nni_mutex_tryenter 8 1 held_world = Return NNG_EBUSY (logev (Ev_mutex_trylock 1 EBUSY) held_world)
   \<and> mutexes free_world 1 = Some \<lparr>mtype = PTHREAD_MUTEX_ERRORCHECK, owner = None\<rparr>
   \<and> is_Return (nni_mutex_tryenter 8 1 free_world)
   \<and> ret_val (nni_mutex_tryenter 8 1 free_world) = OK
   \<and> mutexes (ret_world (nni_mutex_tryenter 8 1 free_world)) 1
       = Some \<lparr>mtype = PTHREAD_MUTEX_ERRORCHECK, owner = Some 8\<rparr>"
  using nni_mutex_tryenter_busy_or_acquired
          [of 8 1 held_world "\<lparr>mtype = PTHREAD_MUTEX_ERRORCHECK, owner = Some 7\<rparr>"]
        nni_mutex_tryenter_busy_or_acquired
          [of 8 1 free_world "\<lparr>mtype = PTHREAD_MUTEX_ERRORCHECK, owner = None\<rparr>"]
  by (simp add: held_world_def free_world_def world0_def)

subsection \<open>The result of a timed wait\<close>

text \<open>
  Claim C4: \<open>nni_cond_timedwait\<close> returns \<open>NNG_ETIMEDOUT\<close> exactly when the native timed
  wait answers \<open>ETIMEDOUT\<close>, returns success exactly when it answers \<open>0\<close>, and panics
  on every other answer.
\<close>

theorem nni_cond_timedwait_result:
  "((is_Return (nni_cond_timedwait p c usec w) \<and> ret_val (nni_cond_timedwait p c usec w) = NNG_ETIMEDOUT)
      = (rv_cond_timedwait p = ETIMEDOUT))
   \<and> ((is_Return (nni_cond_timedwait p c usec w) \<and> ret_val (nni_cond_timedwait p c usec w) = OK)
      = (rv_cond_timedwait p = 0))
   \<and> (is_Panic (nni_cond_timedwait p c usec w)
      = (rv_cond_timedwait p \<noteq> ETIMEDOUT \<and> rv_cond_timedwait p \<noteq> 0))"
  by (simp add: nni_cond_timedwait_def pthread_cond_timedwait_def Let_def ETIMEDOUT_def)

theorem nni_cond_timedwait_result_witness:
  "ret_val (nni_cond_timedwait (all_succeed\<lparr>rv_cond_timedwait := ETIMEDOUT\<rparr>) 2 500000 world0)
     = NNG_ETIMEDOUT
   \<and> ret_val (nni_cond_timedwait all_succeed 2 500000 world0) = OK
   \<and> is_Panic (nni_cond_timedwait (all_succeed\<lparr>rv_cond_timedwait := EINVAL\<rparr>) 2 500000 world0)"
  using nni_cond_timedwait_result [of "all_succeed\<lparr>rv_cond_timedwait := ETIMEDOUT\<rparr>" 2 500000 world0]
    nni_cond_timedwait_result [of all_succeed 2 500000 world0]
    nni_cond_timedwait_result [of "all_succeed\<lparr>rv_cond_timedwait := EINVAL\<rparr>" 2 500000 world0]
  by (simp add: all_succeed_def ETIMEDOUT_def EINVAL_def)

subsection \<open>Initialising a mutex in place\<close>

text \<open>
  Claim C7: \<open>nni_mutex_init\<close> always returns, with \<open>NNG_ENOMEM\<close> when the native mutex
  fails to initialise and with success otherwise; its one call to the platform is that
  initialisation, so it allocates nothing and the allocator's blocks are as before.
\<close>

theorem nni_mutex_init_no_alloc:
  "is_Return (nni_mutex_init p mp w)
   \<and> ret_val (nni_mutex_init p mp w) = (if rv_mutex_init p = 0 then OK else NNG_ENOMEM)
   \<and> heap (ret_world (nni_mutex_init p mp w)) = heap w
   \<and> trace (ret_world (nni_mutex_init p mp w)) =
       trace w @ [Ev_mutex_init mp (attr_type nni_mutexattr) (rv_mutex_init p)]"
  by (simp add: nni_mutex_init_def pthread_mutex_init_def)

theorem nni_mutex_init_no_alloc_witness:
  "ret_val (nni_mutex_init (all_succeed\<lparr>rv_mutex_init := 12\<rparr>) 3 world0) = NNG_ENOMEM
   \<and> ret_val (nni_mutex_init all_succeed 3 world0) = OK
   \<and> heap (ret_world (nni_mutex_init all_succeed 3 world0)) = Map.empty"
  using nni_mutex_init_no_alloc [of "all_succeed\<lparr>rv_mutex_init := 12\<rparr>" 3 world0]
    nni_mutex_init_no_alloc [of all_succeed 3 world0]
  by (simp add: all_succeed_def world0_def)

subsection \<open>The clock attribute is computed once\<close>

text \<open>
  Claim C5: in a build that forces wall-clock time or selects the wall clock,
  \<open>nni_cond_attr\<close> returns success with a null attribute reference and touches nothing.
  Otherwise, once the flag is set, every call returns success with a reference to the
  static attribute and leaves the world as it is, log included: nothing is computed or
  configured again. A call that computes with success sets the flag and leaves the
  attribute with the configured clock; from then on no call of any function of the file
  changes the flag or the attribute. Along any sequence of calls, of \<open>nni_cond_attr\<close>
  alone or of the functions of the file, started in the initial world, the attribute
  object is initialised with success at most once. The same holds when threads run
  \<open>nni_cond_attr\<close> at once, interleaved statement by statement: in every reachable
  configuration the log shows at most one successful initialisation, and every thread
  that has returned the static attribute finds the flag set and the attribute carrying
  the configured clock.
\<close>

theorem nni_cond_attr_cached:
  "(wall_clock_build b \<longrightarrow> nni_cond_attr b p w = Return (OK, Some Null) w)
   \<and> (\<not> wall_clock_build b \<and> init_static w \<noteq> 0 \<longrightarrow>
        nni_cond_attr b p w = Return (OK, Some Static_attr) w)
   \<and> (\<not> wall_clock_build b \<and> init_static w = 0 \<and> is_Return (nni_cond_attr b p w)
        \<and> fst (ret_val (nni_cond_attr b p w)) = OK \<longrightarrow>
        snd (ret_val (nni_cond_attr b p w)) = Some Static_attr
        \<and> init_static (ret_world (nni_cond_attr b p w)) \<noteq> 0
        \<and> attr_static (ret_world (nni_cond_attr b p w)) = Some \<lparr>attr_clock = NNG_USE_CLOCKID b\<rparr>)
   \<and> (init_static w \<noteq> 0 \<and> run b cs w = Some w' \<longrightarrow>
        init_static w' = init_static w \<and> attr_static w' = attr_static w)
   \<and> (cond_attr_calls b ps world0 = Some w1 \<longrightarrow> computations w1 \<le> 1)
   \<and> (run b cs' world0 = Some w2 \<longrightarrow> computations w2 \<le> 1)
   \<and> (reach b (w3, pcs) \<longrightarrow> computations w3 \<le> 1)
   \<and> (reach b (w3, pcs) \<and> pcs t = Returned (OK, Some Static_attr) \<longrightarrow>
        init_static w3 \<noteq> 0 \<and> attr_static w3 = Some \<lparr>attr_clock = NNG_USE_CLOCKID b\<rparr>)"
proof (intro conjI impI)
  assume "cond_attr_calls b ps world0 = Some w1"
  with statics_ok_world0 have "statics_ok b w1" by (rule cond_attr_calls_statics)
  then show "computations w1 \<le> 1" by (rule statics_ok_once)
next
  assume "run b cs' world0 = Some w2"
  with statics_ok_world0 have "statics_ok b w2" by (rule run_statics)
  then show "computations w2 \<le> 1" by (rule statics_ok_once)
next
  assume a: "init_static w \<noteq> 0 \<and> run b cs w = Some w'"
  then show "init_static w' = init_static w" using run_frozen [of w b cs w'] by simp
  from a show "attr_static w' = attr_static w" using run_frozen [of w b cs w'] by simp
next
  assume "reach b (w3, pcs)"
  then show "computations w3 \<le> 1" by (rule reach_once(1))
next
  assume a: "reach b (w3, pcs) \<and> pcs t = Returned (OK, Some Static_attr)"
  then show "init_static w3 \<noteq> 0" using reach_once(2) [of b w3 pcs t] by simp
  from a show "attr_static w3 = Some \<lparr>attr_clock = NNG_USE_CLOCKID b\<rparr>"
    using reach_once(2) [of b w3 pcs t] by simp
qed (auto simp add: nni_cond_attr_eq split: if_splits)

theorem nni_cond_attr_cached_witness:
  "wall_clock_build wall_build
   \<and> nni_cond_attr wall_build all_succeed world0 = Return (OK, Some Null) world0
   \<and> \<not> wall_clock_build monotonic_build
   \<and> init_static world0 = 0
   \<and> nni_cond_attr monotonic_build all_succeed world0 = Return (OK, Some Static_attr) attr_world
   \<and> init_static attr_world \<noteq> 0
   \<and> attr_static attr_world = Some \<lparr>attr_clock = CLOCK_MONOTONIC\<rparr>
   \<and> nni_cond_attr monotonic_build all_succeed attr_world = Return (OK, Some Static_attr) attr_world
   \<and> run monotonic_build [(all_succeed, Call_cond_signal 3)] attr_world
       = Some (logev (Ev_cond_signal 3 0) attr_world)
   \<and> attr_static (logev (Ev_cond_signal 3 0) attr_world) = attr_static attr_world
   \<and> cond_attr_calls monotonic_build [all_succeed, all_succeed] world0 = Some attr_world
   \<and> run monotonic_build [(all_succeed, Call_cond_signal 3)] world0
       = Some (logev (Ev_cond_signal 3 0) world0)
   \<and> computations attr_world \<le> 1
   \<and> computations (logev (Ev_cond_signal 3 0) world0) \<le> 1
   \<and> reach monotonic_build (raced_world, both_returned)
   \<and> both_returned 1 = Returned (OK, Some Static_attr)
   \<and> computations raced_world \<le> 1
   \<and> attr_static raced_world = Some \<lparr>attr_clock = CLOCK_MONOTONIC\<rparr>"
proof -
  note wall = sample_facts(3) and mono = sample_facts(2)
  have i0: "init_static world0 = 0" by (simp add: world0_def)
  have i1: "init_static attr_world \<noteq> 0" by (simp add: attr_world_eval(2))
  have first: "nni_cond_attr monotonic_build all_succeed world0 = Return (OK, Some Static_attr) attr_world"
    by (rule attr_world_eval(1))
  have r1: "run monotonic_build [(all_succeed, Call_cond_signal 3)] attr_world
       = Some (logev (Ev_cond_signal 3 0) attr_world)"
    by (simp add: after_def nni_cond_signal_def pthread_cond_signal_def all_succeed_def)
  have r2: "run monotonic_build [(all_succeed, Call_cond_signal 3)] world0
       = Some (logev (Ev_cond_signal 3 0) world0)"
    by (simp add: after_def nni_cond_signal_def pthread_cond_signal_def all_succeed_def)
  have raced: "reach monotonic_build (raced_world, both_returned)" by (rule reach_raced)
  have one: "both_returned 1 = Returned (OK, Some Static_attr)" by (simp add: both_returned_def)
  note at_wall = nni_cond_attr_cached [where b = wall_build and p = all_succeed and w = world0]
  note at_start = nni_cond_attr_cached [where b = monotonic_build and p = all_succeed and w = world0
      and cs' = "[(all_succeed, Call_cond_signal 3)]" and ?w2.0 = "logev (Ev_cond_signal 3 0) world0"
      and ?w3.0 = raced_world and pcs = both_returned and t = 1]
  note at_set = nni_cond_attr_cached [where b = monotonic_build and p = all_succeed and w = attr_world
      and cs = "[(all_succeed, Call_cond_signal 3)]" and w' = "logev (Ev_cond_signal 3 0) attr_world"
      and ps = "[all_succeed, all_succeed]" and ?w1.0 = attr_world]
  have a: "nni_cond_attr wall_build all_succeed world0 = Return (OK, Some Null) world0"
    using at_wall [THEN conjunct1] wall by simp
  have b: "nni_cond_attr monotonic_build all_succeed attr_world = Return (OK, Some Static_attr) attr_world"
    using at_set [THEN conjunct2, THEN conjunct1] mono i1 by simp
  have c: "attr_static attr_world = Some \<lparr>attr_clock = CLOCK_MONOTONIC\<rparr>"
    using at_start [THEN conjunct2, THEN conjunct2, THEN conjunct1] mono i0 first
    by (simp add: sample_facts(6))
  have d: "attr_static (logev (Ev_cond_signal 3 0) attr_world) = attr_static attr_world"
    using at_set [THEN conjunct2, THEN conjunct2, THEN conjunct2, THEN conjunct1] i1 r1
    by simp
  have calls: "cond_attr_calls monotonic_build [all_succeed, all_succeed] world0 = Some attr_world"
    by (simp add: after_def first b)
  have e: "computations attr_world \<le> 1"
    using at_set [THEN conjunct2, THEN conjunct2, THEN conjunct2, THEN conjunct2, THEN conjunct1]
      calls
    by simp
  have f: "computations (logev (Ev_cond_signal 3 0) world0) \<le> 1"
    using at_start [THEN conjunct2, THEN conjunct2, THEN conjunct2, THEN conjunct2, THEN conjunct2,
      THEN conjunct1] r2
    by simp
  have g: "computations raced_world \<le> 1"
    using at_start [THEN conjunct2, THEN conjunct2, THEN conjunct2, THEN conjunct2, THEN conjunct2,
      THEN conjunct2, THEN conjunct1] raced
    by simp
  have h: "attr_static raced_world = Some \<lparr>attr_clock = CLOCK_MONOTONIC\<rparr>"
    using at_start [THEN conjunct2, THEN conjunct2, THEN conjunct2, THEN conjunct2, THEN conjunct2,
      THEN conjunct2, THEN conjunct2] raced one
    by (simp add: sample_facts(6))
  from wall mono i0 i1 first r1 r2 a b c d calls e f raced one g h show ?thesis by blast
qed

text \<open>
  Claim C10: when the initialisation of the attribute object fails, \<open>nni_cond_attr\<close>
  returns \<open>NNG_ENOMEM\<close> without writing the caller's pointer, with the static lock
  released, the flag still unset and the attribute untouched; a following call, with the
  platform now succeeding, goes through the computation again and returns the static
  attribute with the flag set.
\<close>

theorem nni_cond_attr_retry:
  "\<not> wall_clock_build b \<and> init_static w = 0 \<and> rv_condattr_init p \<noteq> 0 \<longrightarrow>
     is_Return (nni_cond_attr b p w)
     \<and> ret_val (nni_cond_attr b p w) = (NNG_ENOMEM, None)
     \<and> init_static (ret_world (nni_cond_attr b p w)) = 0
     \<and> mx_static (ret_world (nni_cond_attr b p w)) = False
     \<and> attr_static (ret_world (nni_cond_attr b p w)) = attr_static w
     \<and> trace (ret_world (nni_cond_attr b p w)) =
         trace w @ [Ev_static_lock, Ev_condattr_init (rv_condattr_init p), Ev_static_unlock]
     \<and> (rv_condattr_init p' = 0 \<and> rv_condattr_setclock p' = 0 \<longrightarrow>
          is_Return (nni_cond_attr b p' (ret_world (nni_cond_attr b p w)))
          \<and> ret_val (nni_cond_attr b p' (ret_world (nni_cond_attr b p w))) = (OK, Some Static_attr)
          \<and> init_static (ret_world (nni_cond_attr b p' (ret_world (nni_cond_attr b p w)))) = 1
          \<and> attr_static (ret_world (nni_cond_attr b p' (ret_world (nni_cond_attr b p w))))
              = Some \<lparr>attr_clock = NNG_USE_CLOCKID b\<rparr>
          \<and> trace (ret_world (nni_cond_attr b p' (ret_world (nni_cond_attr b p w)))) =
              trace w @ [Ev_static_lock, Ev_condattr_init (rv_condattr_init p), Ev_static_unlock,
                         Ev_static_lock, Ev_condattr_init 0,
                         Ev_condattr_setclock (NNG_USE_CLOCKID b) 0, Ev_static_unlock])"
  by (simp add: nni_cond_attr_eq pthread_condattr_init_def)

theorem nni_cond_attr_retry_witness:
  "\<not> wall_clock_build monotonic_build \<and> init_static world0 = 0
   \<and> rv_condattr_init (all_succeed\<lparr>rv_condattr_init := 12\<rparr>) = 12
   \<and> ret_val (nni_cond_attr monotonic_build (all_succeed\<lparr>rv_condattr_init := 12\<rparr>) world0)
       = (NNG_ENOMEM, None)
   \<and> init_static (ret_world (nni_cond_attr monotonic_build (all_succeed\<lparr>rv_condattr_init := 12\<rparr>) world0)) = 0
   \<and> ret_val (nni_cond_attr monotonic_build all_succeed
        (ret_world (nni_cond_attr monotonic_build (all_succeed\<lparr>rv_condattr_init := 12\<rparr>) world0)))
       = (OK, Some Static_attr)"
  using nni_cond_attr_retry [of monotonic_build world0 "all_succeed\<lparr>rv_condattr_init := 12\<rparr>" all_succeed]
  by (simp add: all_succeed_def monotonic_build_def wall_clock_build_def world0_def
        CLOCK_MONOTONIC_def CLOCK_REALTIME_def)

subsection \<open>Creating a condition variable\<close>

text \<open>
  Claim C6, as amended: from a world whose statics are as \<open>nni_cond_attr\<close> leaves them,
  \<open>nni_cond_create\<close> panics exactly when setting the clock of the attribute fails, and
  returns \<open>NNG_ENOMEM\<close> exactly when the initialisation of the attribute object fails,
  or else the allocation fails or the native condition variable fails to initialise. On
  success the new block records the supplied mutex in its field \<open>mx\<close> and the native
  condition variable is initialised with the resolved attribute, so with the resolved
  clock. No later call of a function of the file, other than destroying that very
  block, changes the recorded mutex, provided the allocator hands out fresh blocks.
\<close>

theorem nni_cond_create_outcomes:
  "statics_ok b w \<longrightarrow>
     (is_Panic (nni_cond_create b p mx w) = attr_panics b p w)
     \<and> ((is_Return (nni_cond_create b p mx w) \<and> fst (ret_val (nni_cond_create b p mx w)) = NNG_ENOMEM)
          = (attr_fails b p w \<or>
             (\<not> attr_panics b p w \<and> (alloc_result p = None \<or> rv_cond_init p \<noteq> 0))))
     \<and> (is_Return (nni_cond_create b p mx w) \<and> fst (ret_val (nni_cond_create b p mx w)) = OK \<longrightarrow>
          (\<exists>c. snd (ret_val (nni_cond_create b p mx w)) = Some c \<and> alloc_result p = Some c
             \<and> cond_mx (ret_world (nni_cond_create b p mx w)) c = Some mx
             \<and> conds (ret_world (nni_cond_create b p mx w)) c = Some \<lparr>cv_clock = resolved_clock b\<rparr>
             \<and> last (trace (ret_world (nni_cond_create b p mx w)))
                 = Ev_cond_init c (Some (resolved_attr b)) 0))
     \<and> (alloc_fresh p' w \<and> heap w c \<noteq> None \<and> k \<noteq> Call_cond_destroy c \<and> k \<noteq> Call_mutex_destroy c
          \<and> api b p' k w = Some w' \<longrightarrow> cond_mx w' c = cond_mx w c)"
proof (intro impI conjI)
  assume ok: "statics_ok b w"
  show "is_Panic (nni_cond_create b p mx w) = attr_panics b p w"
    using ok by (rule nni_cond_create_panics)
  show "(is_Return (nni_cond_create b p mx w) \<and> fst (ret_val (nni_cond_create b p mx w)) = NNG_ENOMEM)
          = (attr_fails b p w \<or>
             (\<not> attr_panics b p w \<and> (alloc_result p = None \<or> rv_cond_init p \<noteq> 0)))"
    using ok by (rule nni_cond_create_enomem)
  show "\<exists>c. snd (ret_val (nni_cond_create b p mx w)) = Some c \<and> alloc_result p = Some c
             \<and> cond_mx (ret_world (nni_cond_create b p mx w)) c = Some mx
             \<and> conds (ret_world (nni_cond_create b p mx w)) c = Some \<lparr>cv_clock = resolved_clock b\<rparr>
             \<and> last (trace (ret_world (nni_cond_create b p mx w)))
                 = Ev_cond_init c (Some (resolved_attr b)) 0"
    if "is_Return (nni_cond_create b p mx w) \<and> fst (ret_val (nni_cond_create b p mx w)) = OK"
    using ok that by (simp add: nni_cond_create_success)
  show "cond_mx w' c = cond_mx w c"
    if "alloc_fresh p' w \<and> heap w c \<noteq> None \<and> k \<noteq> Call_cond_destroy c \<and> k \<noteq> Call_mutex_destroy c
          \<and> api b p' k w = Some w'"
    using that api_keeps_block [of p' w c k b w'] by (simp add: cond_mx_def)
qed

theorem nni_cond_create_outcomes_witness:
  "statics_ok monotonic_build world0
   \<and> ret_val (nni_cond_create monotonic_build all_succeed 5 world0) = (OK, Some 1)
   \<and> cond_mx cond_world 1 = Some 5
   \<and> conds cond_world 1 = Some \<lparr>cv_clock = CLOCK_MONOTONIC\<rparr>
   \<and> statics_ok monotonic_build cond_world
   \<and> alloc_fresh (all_succeed\<lparr>alloc_result := Some 2\<rparr>) cond_world
   \<and> heap cond_world 1 = Some \<lparr>blk_size = 56, blk_mx = Some 5\<rparr>
   \<and> api monotonic_build (all_succeed\<lparr>alloc_result := Some 2\<rparr>) (Call_cond_create 6) cond_world
       = Some (ret_world (nni_cond_create monotonic_build (all_succeed\<lparr>alloc_result := Some 2\<rparr>) 6 cond_world))
   \<and> cond_mx (ret_world (nni_cond_create monotonic_build (all_succeed\<lparr>alloc_result := Some 2\<rparr>) 6 cond_world)) 1
       = Some 5"
proof -
  let ?p2 = "all_succeed\<lparr>alloc_result := Some 2\<rparr>"
  let ?w2 = "ret_world (nni_cond_create monotonic_build ?p2 6 cond_world)"
  have ok0: "statics_ok monotonic_build world0" by (rule statics_ok_world0)
  have ok1: "statics_ok monotonic_build cond_world" by (rule statics_ok_cond_world)
  have fresh: "alloc_fresh ?p2 cond_world"
    by (simp add: alloc_fresh_def all_succeed_def cond_world_eval)
  have live: "heap cond_world 1 = Some \<lparr>blk_size = 56, blk_mx = Some 5\<rparr>"
    by (simp add: cond_world_eval)
  have step: "api monotonic_build ?p2 (Call_cond_create 6) cond_world = Some ?w2"
    using second_cond_eval(1)
    by (cases "nni_cond_create monotonic_build ?p2 6 cond_world") (auto simp add: after_def)
  have first: "ret_val (nni_cond_create monotonic_build all_succeed 5 world0) = (OK, Some 1)"
    by (simp add: cond_world_eval)
  from nni_cond_create_outcomes
         [where b = monotonic_build and w = world0 and p = all_succeed and mx = 5] ok0 first
  have a: "cond_mx cond_world 1 = Some 5 \<and> conds cond_world 1 = Some \<lparr>cv_clock = CLOCK_MONOTONIC\<rparr>"
    by (simp add: cond_world_eval(1) sample_facts)
  from nni_cond_create_outcomes
         [where b = monotonic_build and w = cond_world and p' = ?p2 and c = 1
            and k = "Call_cond_create 6" and w' = ?w2] ok1 fresh live step
  have b: "cond_mx ?w2 1 = cond_mx cond_world 1" by simp
  show ?thesis using ok0 ok1 fresh live step first a b by simp
qed

text \<open>
  The claim as stated fails: with a clock other than the wall clock configured and the
  flag unset, a failing initialisation of the attribute object makes \<open>nni_cond_create\<close>
  return \<open>NNG_ENOMEM\<close> although the allocator and the native condition variable would
  both succeed; neither is called.
\<close>

theorem nni_cond_create_attr_failure:
  "alloc_result (all_succeed\<lparr>rv_condattr_init := 12\<rparr>) = Some 1
   \<and> rv_cond_init (all_succeed\<lparr>rv_condattr_init := 12\<rparr>) = 0
   \<and> is_Return (nni_cond_create monotonic_build (all_succeed\<lparr>rv_condattr_init := 12\<rparr>) 5 world0)
   \<and> ret_val (nni_cond_create monotonic_build (all_succeed\<lparr>rv_condattr_init := 12\<rparr>) 5 world0)
       = (NNG_ENOMEM, None)
   \<and> trace (ret_world (nni_cond_create monotonic_build (all_succeed\<lparr>rv_condattr_init := 12\<rparr>) 5 world0))
       = [Ev_static_lock, Ev_condattr_init 12, Ev_static_unlock]"
  by (simp add: nni_cond_create_def nni_cond_attr_eq pthread_condattr_init_def all_succeed_def
        monotonic_build_def wall_clock_build_def world0_def CLOCK_MONOTONIC_def CLOCK_REALTIME_def)

subsection \<open>Error checking\<close>

text \<open>
  Claim C8: a mutex that \<open>nni_mutex_create\<close> or \<open>nni_mutex_init\<close> hands back with
  success has a native lock of the error-checking type, free at first.
\<close>

theorem mutexes_are_error_checking:
  "(is_Return (nni_mutex_create b p w) \<and> ret_val (nni_mutex_create b p w) = (OK, Some m) \<longrightarrow>
      mutexes (ret_world (nni_mutex_create b p w)) m
        = Some \<lparr>mtype = PTHREAD_MUTEX_ERRORCHECK, owner = None\<rparr>)
   \<and> (ret_val (nni_mutex_init p mp w) = OK \<longrightarrow>
      mutexes (ret_world (nni_mutex_init p mp w)) mp
        = Some \<lparr>mtype = PTHREAD_MUTEX_ERRORCHECK, owner = None\<rparr>)"
  by (auto simp add: nni_mutex_create_def nni_mutex_init_def nni_mutexattr_def native_defs
        split: option.splits if_splits)

theorem mutexes_are_error_checking_witness:
  "is_Return (nni_mutex_create monotonic_build all_succeed world0)
   \<and> ret_val (nni_mutex_create monotonic_build all_succeed world0) = (OK, Some 1)
   \<and> mutexes (ret_world (nni_mutex_create monotonic_build all_succeed world0)) 1
       = Some \<lparr>mtype = PTHREAD_MUTEX_ERRORCHECK, owner = None\<rparr>
   \<and> ret_val (nni_mutex_init all_succeed 3 world0) = OK
   \<and> mutexes (ret_world (nni_mutex_init all_succeed 3 world0)) 3
       = Some \<lparr>mtype = PTHREAD_MUTEX_ERRORCHECK, owner = None\<rparr>"
  using mutexes_are_error_checking [THEN conjunct1, of monotonic_build all_succeed world0 1]
    mutexes_are_error_checking [THEN conjunct2, of all_succeed 3 world0]
    mutex_create_eval mutex_init_eval
  by simp

subsection \<open>Failed constructions leave nothing behind\<close>

text \<open>
  Claim C9: when the allocator hands out fresh blocks and \<open>nni_mutex_create\<close> or
  \<open>nni_cond_create\<close> returns an error code, the out-parameter was not written, the
  allocator's blocks and the native objects are as before the call, and within the call
  every block allocated was released with the size it was allocated with. On success
  the out-parameter holds the allocated block.
\<close>

theorem constructors_fail_clean:
  "alloc_fresh p w \<longrightarrow>
     (is_Return (nni_mutex_create b p w) \<longrightarrow>
        (if fst (ret_val (nni_mutex_create b p w)) = OK
         then snd (ret_val (nni_mutex_create b p w)) = alloc_result p \<and> alloc_result p \<noteq> None
         else snd (ret_val (nni_mutex_create b p w)) = None
           \<and> heap (ret_world (nni_mutex_create b p w)) = heap w
           \<and> mutexes (ret_world (nni_mutex_create b p w)) = mutexes w
           \<and> conds (ret_world (nni_mutex_create b p w)) = conds w
           \<and> outstanding (drop (length (trace w)) (trace (ret_world (nni_mutex_create b p w)))) [] = []))
     \<and> (is_Return (nni_cond_create b p mx w) \<longrightarrow>
        (if fst (ret_val (nni_cond_create b p mx w)) = OK
         then snd (ret_val (nni_cond_create b p mx w)) = alloc_result p \<and> alloc_result p \<noteq> None
         else snd (ret_val (nni_cond_create b p mx w)) = None
           \<and> heap (ret_world (nni_cond_create b p mx w)) = heap w
           \<and> mutexes (ret_world (nni_cond_create b p mx w)) = mutexes w
           \<and> conds (ret_world (nni_cond_create b p mx w)) = conds w
           \<and> outstanding (drop (length (trace w)) (trace (ret_world (nni_cond_create b p mx w)))) [] = []))"
  using nni_mutex_create_clean [of p w b] nni_cond_create_clean [of p w b mx] by blast

theorem constructors_fail_clean_witness:
  "alloc_fresh (all_succeed\<lparr>rv_mutex_init := 12\<rparr>) world0
   \<and> is_Return (nni_mutex_create monotonic_build (all_succeed\<lparr>rv_mutex_init := 12\<rparr>) world0)
   \<and> fst (ret_val (nni_mutex_create monotonic_build (all_succeed\<lparr>rv_mutex_init := 12\<rparr>) world0)) = NNG_ENOMEM
   \<and> snd (ret_val (nni_mutex_create monotonic_build (all_succeed\<lparr>rv_mutex_init := 12\<rparr>) world0)) = None
   \<and> heap (ret_world (nni_mutex_create monotonic_build (all_succeed\<lparr>rv_mutex_init := 12\<rparr>) world0))
       = heap world0
   \<and> alloc_fresh (all_succeed\<lparr>rv_cond_init := 11\<rparr>) world0
   \<and> is_Return (nni_cond_create monotonic_build (all_succeed\<lparr>rv_cond_init := 11\<rparr>) 5 world0)
   \<and> fst (ret_val (nni_cond_create monotonic_build (all_succeed\<lparr>rv_cond_init := 11\<rparr>) 5 world0)) = NNG_ENOMEM
   \<and> snd (ret_val (nni_cond_create monotonic_build (all_succeed\<lparr>rv_cond_init := 11\<rparr>) 5 world0)) = None
   \<and> heap (ret_world (nni_cond_create monotonic_build (all_succeed\<lparr>rv_cond_init := 11\<rparr>) 5 world0))
       = heap world0"
  using constructors_fail_clean
          [of "all_succeed\<lparr>rv_mutex_init := 12\<rparr>" world0 monotonic_build 5]
        constructors_fail_clean
          [of "all_succeed\<lparr>rv_cond_init := 11\<rparr>" world0 monotonic_build 5]
        fail_eval(1,2,3,5,6,7)
  by simp

end
